theory Spec2Isabelle
  imports Main
begin

section \<open>Python values\<close>

text \<open>
  The client (\<^verbatim>\<open>client.py\<close>) handles decoded JSON throughout: the replies of the hosted
  model, the blocks inside them, the turns of the transcript and the request body are all
  Python dicts, lists, strings, integers, booleans and \<^verbatim>\<open>None\<close>. A dict is an association
  list in insertion order. A character is a code point below 256. Floating-point numbers are
  not part of the model.
\<close>

datatype json =
    JNull
  | JBool bool
  | JInt int
  | JStr string
  | JArr "json list"
  | JObj "(string \<times> json) list"

text \<open>An exception: the name of its class and \<^verbatim>\<open>str(e)\<close>.\<close>

datatype pyexn = PyExn (exn_class: string) (exn_str: string)

text \<open>
  The classes that derive from \<^verbatim>\<open>BaseException\<close> and not from \<^verbatim>\<open>Exception\<close>: the
  interpreter's own, and \<^verbatim>\<open>asyncio.CancelledError\<close>, which an \<^verbatim>\<open>await\<close> raises when the
  task is cancelled. A handler \<^verbatim>\<open>except Exception\<close> catches an exception exactly when
  \<open>is_exception\<close> holds of it; every other exception passes through the handler.
\<close>

definition base_exceptions :: "string list" where
  "base_exceptions = [''BaseException'', ''BaseExceptionGroup'', ''GeneratorExit'',
     ''KeyboardInterrupt'', ''SystemExit'', ''CancelledError'']"

definition is_exception :: "pyexn \<Rightarrow> bool" where
  "is_exception x = (exn_class x \<notin> set base_exceptions)"

definition sq :: string where
  "sq = [CHR 0x27]"

definition dq :: string where
  "dq = [CHR 0x22]"

definition nl :: string where
  "nl = [CHR 0x0A]"

definition bs :: string where
  "bs = [CHR 0x5C]"

fun py_type_name :: "json \<Rightarrow> string" where
  "py_type_name JNull = ''NoneType''"
| "py_type_name (JBool b) = ''bool''"
| "py_type_name (JInt i) = ''int''"
| "py_type_name (JStr s) = ''str''"
| "py_type_name (JArr xs) = ''list''"
| "py_type_name (JObj kvs) = ''dict''"

text \<open>\<^verbatim>\<open>d.get(key, default)\<close> on a dict.\<close>

definition py_get :: "(string \<times> json) list \<Rightarrow> string \<Rightarrow> json \<Rightarrow> json" where
  "py_get kvs k d = (case map_of kvs k of None \<Rightarrow> d | Some v \<Rightarrow> v)"

text \<open>\<^verbatim>\<open>x.get\<close> on a value that is not a dict raises AttributeError.\<close>

definition no_get :: "json \<Rightarrow> pyexn" where
  "no_get v = PyExn ''AttributeError''
     (sq @ py_type_name v @ sq @ '' object has no attribute '' @ sq @ ''get'' @ sq)"

text \<open>
  \<^verbatim>\<open>for x in v\<close>: a list gives its items, a dict its keys, a string its characters;
  anything else raises TypeError.
\<close>

fun py_iter :: "json \<Rightarrow> pyexn + json list" where
  "py_iter (JArr xs) = Inr xs"
| "py_iter (JObj kvs) = Inr (map (\<lambda>kv. JStr (fst kv)) kvs)"
| "py_iter (JStr s) = Inr (map (\<lambda>c. JStr [c]) s)"
| "py_iter v = Inl (PyExn ''TypeError''
     (sq @ py_type_name v @ sq @ '' object is not iterable''))"

text \<open>\<^verbatim>\<open>sep.join(parts)\<close> on strings.\<close>

fun join_str :: "string \<Rightarrow> string list \<Rightarrow> string" where
  "join_str sep [] = []"
| "join_str sep [x] = x"
| "join_str sep (x # y # ys) = x @ sep @ join_str sep (y # ys)"

subsection \<open>Decimal and hexadecimal digits\<close>

definition digit_char :: "nat \<Rightarrow> char" where
  "digit_char d = ''0123456789abcdef'' ! d"

fun str_nat :: "nat \<Rightarrow> string" where
  "str_nat n = (if n < 10 then [digit_char n] else str_nat (n div 10) @ [digit_char (n mod 10)])"

declare str_nat.simps [simp del]

definition str_int :: "int \<Rightarrow> string" where
  "str_int i = (if i < 0 then ''-'' @ str_nat (nat (- i)) else str_nat (nat i))"

definition hex2 :: "nat \<Rightarrow> string" where
  "hex2 n = [digit_char (n div 16), digit_char (n mod 16)]"

subsection \<open>\<^verbatim>\<open>json.dumps(v, ensure_ascii=False)\<close>\<close>

text \<open>
  With \<^verbatim>\<open>ensure_ascii=False\<close> only the quotation mark, the backslash and the control
  characters below 0x20 are escaped. Items are separated by a comma and a space, a key from
  its value by a colon and a space.
\<close>

definition json_escape_char :: "char \<Rightarrow> string" where
  "json_escape_char c =
     (if c = CHR 0x22 then bs @ dq
      else if c = CHR 0x5C then bs @ bs
      else if c = CHR 0x0A then bs @ ''n''
      else if c = CHR 0x0D then bs @ ''r''
      else if c = CHR 0x09 then bs @ ''t''
      else if c = CHR 0x08 then bs @ ''b''
      else if c = CHR 0x0C then bs @ ''f''
      else if (of_char c :: nat) < 32 then bs @ ''u00'' @ hex2 (of_char c)
      else [c])"

definition json_string :: "string \<Rightarrow> string" where
  "json_string s = dq @ concat (map json_escape_char s) @ dq"

fun json_dumps :: "json \<Rightarrow> string" where
  "json_dumps JNull = ''null''"
| "json_dumps (JBool b) = (if b then ''true'' else ''false'')"
| "json_dumps (JInt i) = str_int i"
| "json_dumps (JStr s) = json_string s"
| "json_dumps (JArr xs) = ''['' @ join_str '', '' (map json_dumps xs) @ '']''"
| "json_dumps (JObj kvs) =
     ''{'' @ join_str '', '' (map (\<lambda>kv. json_string (fst kv) @ '': '' @ json_dumps (snd kv)) kvs) @ ''}''"

subsection \<open>\<^verbatim>\<open>str(v)\<close>, as an f-string formats a value\<close>

definition printable :: "char \<Rightarrow> bool" where
  "printable c =
     (let n = (of_char c :: nat)
      in (32 \<le> n \<and> n < 127) \<or> (161 \<le> n \<and> n \<noteq> 173))"

definition repr_char :: "char \<Rightarrow> char \<Rightarrow> string" where
  "repr_char quote c =
     (if c = quote \<or> c = CHR 0x5C then bs @ [c]
      else if c = CHR 0x09 then bs @ ''t''
      else if c = CHR 0x0A then bs @ ''n''
      else if c = CHR 0x0D then bs @ ''r''
      else if printable c then [c]
      else bs @ ''x'' @ hex2 (of_char c))"

definition repr_str :: "string \<Rightarrow> string" where
  "repr_str s =
     (let quote = (if CHR 0x27 \<in> set s \<and> CHR 0x22 \<notin> set s then CHR 0x22 else CHR 0x27)
      in [quote] @ concat (map (repr_char quote) s) @ [quote])"

fun py_repr :: "json \<Rightarrow> string" where
  "py_repr JNull = ''None''"
| "py_repr (JBool b) = (if b then ''True'' else ''False'')"
| "py_repr (JInt i) = str_int i"
| "py_repr (JStr s) = repr_str s"
| "py_repr (JArr xs) = ''['' @ join_str '', '' (map py_repr xs) @ '']''"
| "py_repr (JObj kvs) =
     ''{'' @ join_str '', '' (map (\<lambda>kv. repr_str (fst kv) @ '': '' @ py_repr (snd kv)) kvs) @ ''}''"

fun py_str :: "json \<Rightarrow> string" where
  "py_str (JStr s) = s"
| "py_str v = py_repr v"

text \<open>
  \<^verbatim>\<open>"\n".join(parts)\<close>: every part must be a string; the first one that is not raises
  TypeError.
\<close>

fun join_items :: "nat \<Rightarrow> json list \<Rightarrow> pyexn + string list" where
  "join_items i [] = Inr []"
| "join_items i (JStr s # vs) =
     (case join_items (Suc i) vs of Inl e \<Rightarrow> Inl e | Inr ss \<Rightarrow> Inr (s # ss))"
| "join_items i (v # vs) = Inl (PyExn ''TypeError''
     (''sequence item '' @ str_nat i @ '': expected str instance, '' @ py_type_name v @ '' found''))"

definition py_join :: "string \<Rightarrow> json list \<Rightarrow> pyexn + string" where
  "py_join sep vs = (case join_items 0 vs of Inl e \<Rightarrow> Inl e | Inr ss \<Rightarrow> Inr (join_str sep ss))"

section \<open>The chat client (\<^verbatim>\<open>client.py\<close>)\<close>

subsection \<open>Collaborators\<close>

text \<open>
  The tool session and the hosted model are outside the repository. One query sees them as
  scripts: what the tool-catalog fetch gives, what the k-th network call to the model
  gives and what the k-th tool call gives (calls counted from 0 within the query). A tool
  call gives \<^verbatim>\<open>str(result.content)\<close> or raises. \<^verbatim>\<open>traceback.format_exc()\<close> is text
  chosen by the runtime.
\<close>

record tool =
  tool_name :: string
  tool_description :: json
  tool_inputSchema :: json

text \<open>
  \<^verbatim>\<open>invoke_model\<close> returns a body that decodes to JSON, raises botocore's ClientError
  (the \<^verbatim>\<open>Code\<close> and \<^verbatim>\<open>Message\<close> of its \<^verbatim>\<open>Error\<close> entry when present, and \<^verbatim>\<open>str(e)\<close>),
  or raises something else (a connection error, a body that does not decode).
\<close>

datatype net_result =
    Reply json
  | ClientError "string option" "string option" string
  | OtherError pyexn

record env =
  list_tools :: "pyexn + tool list"
  invoke_model :: "nat \<Rightarrow> net_result"
  call_tool :: "nat \<Rightarrow> pyexn + string"
  format_exc :: "pyexn \<Rightarrow> string"

text \<open>
  What a query does to the outside, in order: the catalog fetch, each call of
  \<^verbatim>\<open>_invoke_bedrock_claude\<close> (with the transcript and catalog it was given), each network
  call it makes (with the model id and the request body), and each tool call (with the
  tool's name and arguments).
\<close>

datatype event =
    EvListTools
  | EvInvoke "json list" "json list"
  | EvNet string json
  | EvCallTool json json

fun is_invoke :: "event \<Rightarrow> bool" where
  "is_invoke (EvInvoke ms ts) = True"
| "is_invoke ev = False"

fun is_net :: "event \<Rightarrow> bool" where
  "is_net (EvNet m b) = True"
| "is_net ev = False"

fun is_call_tool :: "event \<Rightarrow> bool" where
  "is_call_tool (EvCallTool n a) = True"
| "is_call_tool ev = False"

definition invoker_calls :: "event list \<Rightarrow> nat" where
  "invoker_calls evs = length (filter is_invoke evs)"

definition network_calls :: "event list \<Rightarrow> nat" where
  "network_calls evs = length (filter is_net evs)"

definition tool_calls :: "event list \<Rightarrow> nat" where
  "tool_calls evs = length (filter is_call_tool evs)"

text \<open>
  The part of the client that a query reads and writes: whether \<^verbatim>\<open>self.session\<close> is set,
  and \<^verbatim>\<open>self.bedrock_available\<close>.
\<close>

record client =
  session :: bool
  bedrock_available :: bool

text \<open>While a query runs: the flag and the events so far.\<close>

record run =
  available :: bool
  events :: "event list"

definition log_event :: "event \<Rightarrow> run \<Rightarrow> run" where
  "log_event ev r = r\<lparr>events := events r @ [ev]\<rparr>"

subsection \<open>\<^verbatim>\<open>_invoke_bedrock_claude\<close>\<close>

definition claude_model_id :: string where
  "claude_model_id = ''us.anthropic.claude-3-7-sonnet-20250219-v1:0''"

definition auth_error_codes :: "string list" where
  "auth_error_codes = [''UnrecognizedClientException'', ''InvalidSignatureException'',
     ''ExpiredTokenException'', ''AccessDeniedException'']"

definition request_body :: "json list \<Rightarrow> json list \<Rightarrow> json" where
  "request_body msgs tools =
     JObj ([(''anthropic_version'', JStr ''bedrock-2023-05-31''),
            (''max_tokens'', JInt 4096),
            (''messages'', JArr msgs)]
           @ (if tools \<noteq> [] then [(''tools'', JArr tools)] else []))"

definition auth_failed :: pyexn where
  "auth_failed = PyExn ''Exception''
     ''AWS Bedrock authentication failed. Please check your credentials.''"

definition bedrock_error :: "string option \<Rightarrow> string option \<Rightarrow> string \<Rightarrow> pyexn" where
  "bedrock_error code message s =
     (let error_code = (case code of None \<Rightarrow> ''Unknown'' | Some c \<Rightarrow> c);
          error_message = (case message of None \<Rightarrow> s | Some m \<Rightarrow> m)
      in PyExn ''Exception'' (''AWS Bedrock error ('' @ error_code @ ''): '' @ error_message))"

definition is_auth_error :: "string option \<Rightarrow> bool" where
  "is_auth_error code =
     ((case code of None \<Rightarrow> ''Unknown'' | Some c \<Rightarrow> c) \<in> set auth_error_codes)"

definition invoke_bedrock_claude ::
  "env \<Rightarrow> json list \<Rightarrow> json list \<Rightarrow> run \<Rightarrow> (pyexn + json) \<times> run" where
  "invoke_bedrock_claude e msgs tools r0 =
     (let r = log_event (EvInvoke msgs tools) r0 in
      if \<not> available r then (Inl auth_failed, r)
      else
        let k = network_calls (events r);
            r1 = log_event (EvNet claude_model_id (request_body msgs tools)) r
        in case invoke_model e k of
             Reply response_body \<Rightarrow> (Inr response_body, r1)
           | ClientError code message s \<Rightarrow>
               (Inl (bedrock_error code message s),
                if is_auth_error code then r1\<lparr>available := False\<rparr> else r1)
           | OtherError x \<Rightarrow> (Inl x, r1))"

subsection \<open>\<^verbatim>\<open>process_query\<close>\<close>

text \<open>\<^verbatim>\<open>bedrock_response.get("content", [])\<close>, as the \<^verbatim>\<open>for\<close> loop iterates it.\<close>

fun reply_content :: "json \<Rightarrow> pyexn + json list" where
  "reply_content (JObj kvs) = py_iter (py_get kvs ''content'' (JArr []))"
| "reply_content v = Inl (no_get v)"

text \<open>
  The inner loop over the follow-up reply: the text of a text block is appended to
  \<^verbatim>\<open>final_text\<close>, every other block is passed over.
\<close>

fun scan_followup :: "json list \<Rightarrow> json list \<Rightarrow> pyexn + json list" where
  "scan_followup [] ft = Inr ft"
| "scan_followup (JObj kvs # conts) ft =
     (if py_get kvs ''type'' JNull = JStr ''text''
      then scan_followup conts (ft @ [py_get kvs ''text'' (JStr [])])
      else scan_followup conts ft)"
| "scan_followup (cont # conts) ft = Inl (no_get cont)"

text \<open>The local variables of the loop.\<close>

record locals =
  messages :: "json list"
  tool_results :: "json list"
  final_text :: "json list"

definition assistant_turn :: "json \<Rightarrow> json \<Rightarrow> json \<Rightarrow> json" where
  "assistant_turn name args tid =
     JObj [(''role'', JStr ''assistant''),
           (''content'', JArr [JObj [(''type'', JStr ''tool_use''), (''name'', name),
                                     (''input'', args), (''id'', tid)]])]"

definition result_turn :: "string \<Rightarrow> json \<Rightarrow> json" where
  "result_turn result_content tid =
     JObj [(''role'', JStr ''user''),
           (''content'', JArr [JObj [(''type'', JStr ''tool_result''),
                                     (''content'', JStr result_content),
                                     (''tool_use_id'', tid)]])]"

definition tool_annotation :: "json \<Rightarrow> json \<Rightarrow> string" where
  "tool_annotation name args =
     ''[Calling tool '' @ py_str name @ '' with args '' @ json_dumps args @ '']''"

text \<open>
  The identifier of a tool call: the block's \<^verbatim>\<open>id\<close>, and
  \<^verbatim>\<open>f"tool_{len(tool_results)}"\<close> for a block that has none.
\<close>

definition tool_id :: "(string \<times> json) list \<Rightarrow> json list \<Rightarrow> json" where
  "tool_id kvs results = py_get kvs ''id'' (JStr (''tool_'' @ str_nat (length results)))"

text \<open>The \<^verbatim>\<open>tool_use\<close> branch of the loop body, for a block with the entries \<open>kvs\<close>.\<close>

definition tool_use_branch ::
  "env \<Rightarrow> json list \<Rightarrow> (string \<times> json) list \<Rightarrow> locals \<Rightarrow> run \<Rightarrow> (pyexn + locals) \<times> run" where
  "tool_use_branch e available_tools kvs l r0 =
     (let name = py_get kvs ''name'' JNull;
          args = py_get kvs ''input'' (JObj []);
          tid = tool_id kvs (tool_results l);
          k = tool_calls (events r0);
          r = log_event (EvCallTool name args) r0
      in case call_tool e k of
           Inl x \<Rightarrow> (Inl x, r)
         | Inr result_content \<Rightarrow>
             (let l1 = l\<lparr>final_text := final_text l @ [JStr (tool_annotation name args)],
                         messages := messages l @ [assistant_turn name args tid,
                                                    result_turn result_content tid]\<rparr>
              in case invoke_bedrock_claude e (messages l1) available_tools r of
                   (Inl x, r1) \<Rightarrow> (Inl x, r1)
                 | (Inr bedrock_response, r1) \<Rightarrow>
                     (case reply_content bedrock_response of
                        Inl x \<Rightarrow> (Inl x, r1)
                      | Inr conts \<Rightarrow>
                          (case scan_followup conts (final_text l1) of
                             Inl x \<Rightarrow> (Inl x, r1)
                           | Inr ft \<Rightarrow> (Inr (l1\<lparr>final_text := ft\<rparr>), r1)))))"

text \<open>
  The outer loop. It runs over the content of the first reply: the list is taken once,
  when the loop starts, and assigning \<^verbatim>\<open>bedrock_response\<close> inside the loop does not change
  what is iterated.
\<close>

fun scan_blocks ::
  "env \<Rightarrow> json list \<Rightarrow> json list \<Rightarrow> locals \<Rightarrow> run \<Rightarrow> (pyexn + locals) \<times> run" where
  "scan_blocks e available_tools [] l r = (Inr l, r)"
| "scan_blocks e available_tools (JObj kvs # contents) l r =
     (if py_get kvs ''type'' JNull = JStr ''text''
      then scan_blocks e available_tools contents
             (l\<lparr>final_text := final_text l @ [py_get kvs ''text'' (JStr [])]\<rparr>) r
      else if py_get kvs ''type'' JNull = JStr ''tool_use''
      then (case tool_use_branch e available_tools kvs l r of
              (Inl x, r1) \<Rightarrow> (Inl x, r1)
            | (Inr l1, r1) \<Rightarrow> scan_blocks e available_tools contents l1 r1)
      else scan_blocks e available_tools contents l r)"
| "scan_blocks e available_tools (content # contents) l r = (Inl (no_get content), r)"

definition tool_entry :: "tool \<Rightarrow> json" where
  "tool_entry t = JObj [(''name'', JStr (tool_name t)),
                        (''description'', tool_description t),
                        (''input_schema'', tool_inputSchema t)]"

definition user_turn :: "string \<Rightarrow> json" where
  "user_turn query = JObj [(''role'', JStr ''user''), (''content'', JStr query)]"

text \<open>The body of the \<^verbatim>\<open>try\<close> block.\<close>

definition query_body :: "env \<Rightarrow> string \<Rightarrow> run \<Rightarrow> (pyexn + string) \<times> run" where
  "query_body e query r0 =
     (let msgs = [user_turn query];
          r = log_event EvListTools r0
      in case list_tools e of
           Inl x \<Rightarrow> (Inl x, r)
         | Inr ts \<Rightarrow>
             (let available_tools = map tool_entry ts
              in case invoke_bedrock_claude e msgs available_tools r of
                   (Inl x, r1) \<Rightarrow> (Inl x, r1)
                 | (Inr bedrock_response, r1) \<Rightarrow>
                     (case reply_content bedrock_response of
                        Inl x \<Rightarrow> (Inl x, r1)
                      | Inr contents \<Rightarrow>
                          (case scan_blocks e available_tools contents
                                  \<lparr>messages = msgs, tool_results = [], final_text = []\<rparr> r1 of
                             (Inl x, r2) \<Rightarrow> (Inl x, r2)
                           | (Inr l, r2) \<Rightarrow> (py_join nl (final_text l), r2)))))"

definition error_text :: "env \<Rightarrow> pyexn \<Rightarrow> string" where
  "error_text e x = ''Error processing query: '' @ exn_str x @ nl @ nl @ format_exc e x"

definition not_connected :: string where
  "not_connected = ''Not connected to server. Please connect first.''"

text \<open>
  The handler of the \<^verbatim>\<open>try\<close> block, \<^verbatim>\<open>except Exception as e\<close>: an exception that it catches
  becomes the returned string, any other exception goes on to the caller.
\<close>

definition handler :: "env \<Rightarrow> pyexn \<Rightarrow> pyexn + string" where
  "handler e x = (if is_exception x then Inr (error_text e x) else Inl x)"

text \<open>
  \<^verbatim>\<open>process_query\<close>: what it gives its caller (\<open>Inl\<close> an exception that leaves it, \<open>Inr\<close> the
  string it returns), the client afterwards, and the events of the query.
\<close>

definition process_query ::
  "env \<Rightarrow> client \<Rightarrow> string \<Rightarrow> (pyexn + string) \<times> client \<times> event list" where
  "process_query e c query =
     (if \<not> session c then (Inr not_connected, c, [])
      else case query_body e query \<lparr>available = bedrock_available c, events = []\<rparr> of
             (Inl x, r) \<Rightarrow>
               (handler e x, c\<lparr>bedrock_available := available r\<rparr>, events r)
           | (Inr s, r) \<Rightarrow> (Inr s, c\<lparr>bedrock_available := available r\<rparr>, events r))"

definition pq_result :: "env \<Rightarrow> client \<Rightarrow> string \<Rightarrow> pyexn + string" where
  "pq_result e c query = fst (process_query e c query)"

definition pq_client :: "env \<Rightarrow> client \<Rightarrow> string \<Rightarrow> client" where
  "pq_client e c query = fst (snd (process_query e c query))"

definition pq_events :: "env \<Rightarrow> client \<Rightarrow> string \<Rightarrow> event list" where
  "pq_events e c query = snd (snd (process_query e c query))"

section \<open>Replies and blocks\<close>

text \<open>
  The content blocks of a reply, when the reply is a dict whose \<^verbatim>\<open>content\<close> is a list (an
  absent \<^verbatim>\<open>content\<close> counts as the empty list, as the code's default does).
\<close>

fun reply_blocks :: "json \<Rightarrow> json list option" where
  "reply_blocks (JObj kvs) =
     (case py_get kvs ''content'' (JArr []) of JArr blocks \<Rightarrow> Some blocks | _ \<Rightarrow> None)"
| "reply_blocks v = None"

fun is_str :: "json \<Rightarrow> bool" where
  "is_str (JStr s) = True"
| "is_str v = False"

fun the_str :: "json \<Rightarrow> string" where
  "the_str (JStr s) = s"
| "the_str v = []"

text \<open>A text block: a dict of type \<^verbatim>\<open>text\<close> whose text (the empty string when absent) is a string.\<close>

fun text_block :: "json \<Rightarrow> bool" where
  "text_block (JObj kvs) =
     (py_get kvs ''type'' JNull = JStr ''text'' \<and> is_str (py_get kvs ''text'' (JStr [])))"
| "text_block v = False"

fun block_text :: "json \<Rightarrow> string" where
  "block_text (JObj kvs) = the_str (py_get kvs ''text'' (JStr []))"
| "block_text v = []"

text \<open>A tool-invocation-request block: a dict of type \<^verbatim>\<open>tool_use\<close>.\<close>

fun tool_use_block :: "json \<Rightarrow> bool" where
  "tool_use_block (JObj kvs) = (py_get kvs ''type'' JNull = JStr ''tool_use'')"
| "tool_use_block v = False"

fun block_entries :: "json \<Rightarrow> (string \<times> json) list" where
  "block_entries (JObj kvs) = kvs"
| "block_entries v = []"

definition block_name :: "json \<Rightarrow> json" where
  "block_name b = py_get (block_entries b) ''name'' JNull"

definition block_input :: "json \<Rightarrow> json" where
  "block_input b = py_get (block_entries b) ''input'' (JObj [])"

text \<open>
  A block of a follow-up reply that the inner loop can read: a dict, and if it is of type
  \<^verbatim>\<open>text\<close> its text is a string.
\<close>

fun plain_block :: "json \<Rightarrow> bool" where
  "plain_block (JObj kvs) =
     (py_get kvs ''type'' JNull \<noteq> JStr ''text'' \<or> is_str (py_get kvs ''text'' (JStr [])))"
| "plain_block v = False"

fun is_text :: "json \<Rightarrow> bool" where
  "is_text (JObj kvs) = (py_get kvs ''type'' JNull = JStr ''text'')"
| "is_text v = False"

definition texts_of :: "json list \<Rightarrow> string list" where
  "texts_of blocks = map block_text (filter is_text blocks)"

definition connected :: "client \<Rightarrow> bool" where
  "connected c = (session c \<and> bedrock_available c)"

fun returns :: "'a + 'b \<Rightarrow> bool" where
  "returns (Inr v) = True"
| "returns (Inl x) = False"

text \<open>A reply that is one tool-invocation-request block alone.\<close>

definition single_request :: "net_result \<Rightarrow> bool" where
  "single_request nr =
     (case nr of
        Reply rep \<Rightarrow> (case reply_blocks rep of Some [b] \<Rightarrow> tool_use_block b | _ \<Rightarrow> False)
      | _ \<Rightarrow> False)"

text \<open>A reply that contains no tool-invocation-request block.\<close>

definition no_request :: "net_result \<Rightarrow> bool" where
  "no_request nr =
     (case nr of
        Reply rep \<Rightarrow> (case reply_blocks rep of
                        Some blocks \<Rightarrow> \<not> list_ex tool_use_block blocks | None \<Rightarrow> False)
      | _ \<Rightarrow> False)"

text \<open>
  The model's replies form a chain of \<open>n\<close> sequential tool-invocation requests: replies 0
  to \<open>n - 1\<close> are each one request alone, the tool returns for each, and reply \<open>n\<close> holds no
  request.
\<close>

definition chain :: "env \<Rightarrow> nat \<Rightarrow> bool" where
  "chain e n =
     (list_all (\<lambda>k. single_request (invoke_model e k) \<and> returns (call_tool e k)) [0..<n]
      \<and> no_request (invoke_model e n))"

text \<open>The only block of a reply that is one block alone.\<close>

fun only_block :: "net_result \<Rightarrow> json" where
  "only_block (Reply rep) = (case reply_blocks rep of Some [b] \<Rightarrow> b | _ \<Rightarrow> JNull)"
| "only_block nr = JNull"

section \<open>Concrete scenarios\<close>

definition online :: client where
  "online = \<lparr>session = True, bedrock_available = True\<rparr>"

definition reply_of :: "json list \<Rightarrow> json" where
  "reply_of blocks = JObj [(''role'', JStr ''assistant''), (''content'', JArr blocks)]"

definition text_of :: "string \<Rightarrow> json" where
  "text_of s = JObj [(''type'', JStr ''text''), (''text'', JStr s)]"

definition location_tool :: tool where
  "location_tool = \<lparr>tool_name = ''get_location_by_id'',
     tool_description = JStr ''Get location information by location ID/code.'',
     tool_inputSchema = JObj [(''type'', JStr ''object'')]\<rparr>"

definition unreachable :: pyexn where
  "unreachable = PyExn ''EndpointConnectionError'' ''Could not connect to the endpoint URL''"

definition tool_failure :: pyexn where
  "tool_failure = PyExn ''McpError'' ''Connection closed''"

definition trace_of :: "pyexn \<Rightarrow> string" where
  "trace_of x = ''Traceback (most recent call last):'' @ nl @ exn_class x @ '': '' @ exn_str x @ nl"

text \<open>
  A scripted session: the model's replies and the tools' results in order, and a failure
  once a script has run out.
\<close>

definition scripted :: "net_result list \<Rightarrow> (pyexn + string) list \<Rightarrow> env" where
  "scripted replies results =
     \<lparr>list_tools = Inr [location_tool],
      invoke_model = (\<lambda>k. if k < length replies then replies ! k else OtherError unreachable),
      call_tool = (\<lambda>k. if k < length results then results ! k else Inl tool_failure),
      format_exc = trace_of\<rparr>"

text \<open>The scenario of the location QIM4.\<close>

definition qim4_request :: json where
  "qim4_request = JObj [(''type'', JStr ''tool_use''), (''id'', JStr ''t1''),
     (''name'', JStr ''get_location_by_id''),
     (''input'', JObj [(''location_id'', JStr ''QIM4'')])]"

definition qim4_env :: env where
  "qim4_env = scripted
     [Reply (reply_of [qim4_request]),
      Reply (reply_of [text_of ''QIM4 is in the America/Chicago time zone.''])]
     [Inr ''Time Zone: America/Chicago'']"

definition qim4_query :: string where
  "qim4_query = ''What is the time zone for location QIM4?''"

text \<open>A reply of two text blocks.\<close>

definition two_texts :: "json list" where
  "two_texts = [text_of ''Hello'', text_of ''world'']"

definition two_texts_env :: env where
  "two_texts_env = scripted [Reply (reply_of two_texts)] []"

text \<open>A chain of two requests: the follow-up reply asks for a second tool call.\<close>

definition request_of :: "string \<Rightarrow> string \<Rightarrow> string \<Rightarrow> json" where
  "request_of tid name location =
     JObj [(''type'', JStr ''tool_use''), (''id'', JStr tid), (''name'', JStr name),
           (''input'', JObj [(''location_id'', JStr location)])]"

definition chain2_env :: env where
  "chain2_env = scripted
     [Reply (reply_of [request_of ''t1'' ''get_location_by_id'' ''QIM4'']),
      Reply (reply_of [request_of ''t2'' ''get_location_by_id'' ''ABC1'']),
      Reply (reply_of [text_of ''Both locations are in the same time zone.''])]
     [Inr ''Time Zone: America/Chicago'', Inr ''Time Zone: America/Chicago'']"

text \<open>A reply with text before and after its one request.\<close>

definition around_env :: env where
  "around_env = scripted
     [Reply (reply_of [text_of ''Let me look that up.'',
                       request_of ''t1'' ''get_location_by_id'' ''QIM4'',
                       text_of ''Anything else?'']),
      Reply (reply_of [text_of ''QIM4 is in the America/Chicago time zone.''])]
     [Inr ''Time Zone: America/Chicago'']"

section \<open>Failures\<close>

text \<open>The exception that \<^verbatim>\<open>_invoke_bedrock_claude\<close> raises for an outcome of the network call.\<close>

fun invoker_error :: "net_result \<Rightarrow> pyexn option" where
  "invoker_error (Reply rep) = None"
| "invoker_error (ClientError code message s) = Some (bedrock_error code message s)"
| "invoker_error (OtherError x) = Some x"

text \<open>
  How a query ends once \<^verbatim>\<open>bedrock_available\<close> is \<^verbatim>\<open>False\<close>: with the message of a missing
  session, with what the catalog fetch raised, or with the error string of the Model
  Invoker's own exception.
\<close>

definition unavailable_reply :: "env \<Rightarrow> client \<Rightarrow> pyexn + string" where
  "unavailable_reply e c =
     (if \<not> session c then Inr not_connected
      else case list_tools e of
             Inl x \<Rightarrow> handler e x
           | Inr ts \<Rightarrow> Inr (error_text e auth_failed))"


text \<open>Credentials that have expired: the first network call is rejected.\<close>

definition expired_env :: env where
  "expired_env = scripted
     [ClientError (Some ''ExpiredTokenException'')
        (Some ''The security token included in the request is expired'')
        ''An error occurred (ExpiredTokenException) when calling the InvokeModel operation'']
     []"

text \<open>A tool call that raises.\<close>

definition failing_tool_env :: env where
  "failing_tool_env = scripted
     [Reply (reply_of [request_of ''t1'' ''get_location_by_id'' ''QIM4'']),
      Reply (reply_of [text_of ''unreachable''])]
     [Inl tool_failure]"

definition offline :: client where
  "offline = \<lparr>session = False, bedrock_available = True\<rparr>"

text \<open>A task that is cancelled while it awaits the tool, or while it awaits the catalog.\<close>

definition cancelled :: pyexn where
  "cancelled = PyExn ''CancelledError'' []"

definition cancelled_tool_env :: env where
  "cancelled_tool_env = scripted
     [Reply (reply_of [request_of ''t1'' ''get_location_by_id'' ''QIM4'']),
      Reply (reply_of [text_of ''unreachable''])]
     [Inl cancelled]"

definition cancelled_catalog_env :: env where
  "cancelled_catalog_env = qim4_env\<lparr>list_tools := Inl cancelled\<rparr>"

text \<open>An endpoint that cannot be reached, and a session that is lost when the catalog is fetched.\<close>

definition unreachable_env :: env where
  "unreachable_env = scripted [] []"

definition lost_env :: env where
  "lost_env = qim4_env\<lparr>list_tools := Inl tool_failure\<rparr>"

definition latched :: client where
  "latched = \<lparr>session = True, bedrock_available = False\<rparr>"

section \<open>Basic facts\<close>

lemma str_nat_0: "str_nat 0 = ''0''"
  by (simp add: str_nat.simps digit_char_def)

lemma tool_id_absent: "map_of kvs ''id'' = None \<Longrightarrow> tool_id kvs [] = JStr ''tool_0''"
  by (simp add: tool_id_def py_get_def str_nat_0)

lemma tool_id_present: "map_of kvs ''id'' = Some v \<Longrightarrow> tool_id kvs rs = v"
  by (simp add: tool_id_def py_get_def)

lemma tool_calls_append [simp]: "tool_calls (xs @ ys) = tool_calls xs + tool_calls ys"
  by (simp add: tool_calls_def)

lemma invoker_calls_append [simp]: "invoker_calls (xs @ ys) = invoker_calls xs + invoker_calls ys"
  by (simp add: invoker_calls_def)

lemma network_calls_append [simp]: "network_calls (xs @ ys) = network_calls xs + network_calls ys"
  by (simp add: network_calls_def)

lemma tool_calls_Cons [simp]:
  "tool_calls (ev # evs) = (if is_call_tool ev then 1 else 0) + tool_calls evs"
  by (simp add: tool_calls_def)

lemma invoker_calls_Cons [simp]:
  "invoker_calls (ev # evs) = (if is_invoke ev then 1 else 0) + invoker_calls evs"
  by (simp add: invoker_calls_def)

lemma network_calls_Cons [simp]:
  "network_calls (ev # evs) = (if is_net ev then 1 else 0) + network_calls evs"
  by (simp add: network_calls_def)

lemma calls_Nil [simp]: "tool_calls [] = 0" "invoker_calls [] = 0" "network_calls [] = 0"
  by (simp_all add: tool_calls_def invoker_calls_def network_calls_def)

lemma join_items_strs: "join_items i (map JStr ss) = Inr ss"
  by (induction ss arbitrary: i) simp_all

lemma py_join_strs: "py_join sep (map JStr ss) = Inr (join_str sep ss)"
  by (simp add: py_join_def join_items_strs)

subsection \<open>One call of the Model Invoker\<close>

lemma invoke_cases:
  assumes "invoke_bedrock_claude e ms ts r = (res, r')"
  shows "(\<not> available r \<and> res = Inl auth_failed \<and> \<not> available r'
            \<and> events r' = events r @ [EvInvoke ms ts])
       \<or> (available r
            \<and> events r' = events r @ [EvInvoke ms ts, EvNet claude_model_id (request_body ms ts)]
            \<and> (case invoke_model e (network_calls (events r)) of
                  Reply b \<Rightarrow> res = Inr b \<and> available r'
                | ClientError code m s \<Rightarrow>
                    res = Inl (bedrock_error code m s) \<and> (available r' \<longleftrightarrow> \<not> is_auth_error code)
                | OtherError x \<Rightarrow> res = Inl x \<and> available r'))"
  using assms
  by (auto simp: invoke_bedrock_claude_def log_event_def Let_def split: net_result.splits if_splits)

lemma invoke_reply:
  assumes "available r" and "invoke_model e (network_calls (events r)) = Reply b"
  shows "invoke_bedrock_claude e ms ts r =
           (Inr b, r\<lparr>events := events r @ [EvInvoke ms ts,
                                            EvNet claude_model_id (request_body ms ts)]\<rparr>)"
  using assms by (simp add: invoke_bedrock_claude_def log_event_def Let_def)

lemma invoke_unavailable:
  assumes "\<not> available r"
  shows "invoke_bedrock_claude e ms ts r = (Inl auth_failed, r\<lparr>events := events r @ [EvInvoke ms ts]\<rparr>)"
  using assms by (simp add: invoke_bedrock_claude_def log_event_def Let_def)

lemma invoke_events:
  assumes "invoke_bedrock_claude e ms ts r = (res, r')"
  shows "\<exists>evs. events r' = events r @ EvInvoke ms ts # evs \<and> invoker_calls evs = 0
           \<and> tool_calls evs = 0 \<and> (\<not> available r \<longrightarrow> evs = [])"
  using invoke_cases [OF assms] by auto

lemma invoke_latch:
  assumes "invoke_bedrock_claude e ms ts r = (res, r')" and "\<not> available r"
  shows "\<not> available r'"
  using invoke_cases [OF assms(1)] assms(2) by auto

subsection \<open>The loops over text\<close>

lemma scan_blocks_texts:
  "list_all text_block blocks \<Longrightarrow>
   scan_blocks e ts blocks l r =
     (Inr (l\<lparr>final_text := final_text l @ map (\<lambda>b. JStr (block_text b)) blocks\<rparr>), r)"
proof (induction blocks arbitrary: l)
  case Nil
  then show ?case by simp
next
  case (Cons b blocks)
  from Cons.prems obtain kvs where b: "b = JObj kvs"
    by (cases b) simp_all
  from Cons.prems b have ty: "py_get kvs ''type'' JNull = JStr ''text''"
    and tx: "is_str (py_get kvs ''text'' (JStr []))" and rest: "list_all text_block blocks"
    by simp_all
  from tx obtain s where s: "py_get kvs ''text'' (JStr []) = JStr s"
    by (cases "py_get kvs ''text'' (JStr [])") simp_all
  show ?case
    using Cons.IH [OF rest] by (simp add: b ty s)
qed

lemma scan_followup_plain:
  "list_all plain_block blocks \<Longrightarrow>
   scan_followup blocks ft = Inr (ft @ map JStr (texts_of blocks))"
proof (induction blocks arbitrary: ft)
  case Nil
  then show ?case by (simp add: texts_of_def)
next
  case (Cons b blocks)
  from Cons.prems obtain kvs where b: "b = JObj kvs"
    by (cases b) simp_all
  from Cons.prems have rest: "list_all plain_block blocks"
    by simp
  show ?case
  proof (cases "py_get kvs ''type'' JNull = JStr ''text''")
    case True
    with Cons.prems b have "is_str (py_get kvs ''text'' (JStr []))"
      by simp
    then obtain s where s: "py_get kvs ''text'' (JStr []) = JStr s"
      by (cases "py_get kvs ''text'' (JStr [])") simp_all
    show ?thesis
      using Cons.IH [OF rest] True by (simp add: b s texts_of_def)
  next
    case False
    then show ?thesis
      using Cons.IH [OF rest] by (simp add: b texts_of_def)
  qed
qed

lemma reply_blocks_content: "reply_blocks rep = Some blocks \<Longrightarrow> reply_content rep = Inr blocks"
  by (cases rep) (auto split: json.splits)

section \<open>Queries answered with text only\<close>

lemma query_body_first_reply:
  assumes "list_tools e = Inr ts" and "available r0"
    and "invoke_model e (network_calls (events r0)) = Reply rep"
    and "reply_content rep = Inr contents"
  shows "query_body e q r0 =
           (case scan_blocks e (map tool_entry ts) contents
                   \<lparr>messages = [user_turn q], tool_results = [], final_text = []\<rparr>
                   (r0\<lparr>events := events r0 @ [EvListTools,
                          EvInvoke [user_turn q] (map tool_entry ts),
                          EvNet claude_model_id (request_body [user_turn q] (map tool_entry ts))]\<rparr>) of
              (Inl x, r2) \<Rightarrow> (Inl x, r2)
            | (Inr l, r2) \<Rightarrow> (py_join nl (final_text l), r2))"
proof -
  let ?r = "log_event EvListTools r0"
  have a: "available ?r" and n: "network_calls (events ?r) = network_calls (events r0)"
    using assms(2) by (simp_all add: log_event_def)
  have "invoke_bedrock_claude e [user_turn q] (map tool_entry ts) ?r =
          (Inr rep, ?r\<lparr>events := events ?r @ [EvInvoke [user_turn q] (map tool_entry ts),
             EvNet claude_model_id (request_body [user_turn q] (map tool_entry ts))]\<rparr>)"
    using invoke_reply [OF a] assms(3) n by simp
  then show ?thesis
    using assms(1,4) by (simp add: query_body_def Let_def log_event_def)
qed

text \<open>
  Claim C3, amended. When the model's reply holds only text blocks, \<^verbatim>\<open>process_query\<close>
  returns their texts in order with a newline between consecutive texts (not their plain
  concatenation), after exactly one call of the Model Invoker and no call of \<^verbatim>\<open>callTool\<close>.
\<close>

theorem C3_text_only_joined_by_newlines:
  assumes "session c" and "bedrock_available c" and "list_tools e = Inr ts"
    and "invoke_model e 0 = Reply rep" and "reply_blocks rep = Some blocks"
    and "list_all text_block blocks"
  shows "pq_result e c q = Inr (join_str nl (map block_text blocks))
       \<and> invoker_calls (pq_events e c q) = 1
       \<and> tool_calls (pq_events e c q) = 0"
proof -
  let ?r0 = "\<lparr>available = bedrock_available c, events = []\<rparr>"
  have body: "query_body e q ?r0 =
      (Inr (join_str nl (map block_text blocks)),
       ?r0\<lparr>events := [EvListTools, EvInvoke [user_turn q] (map tool_entry ts),
              EvNet claude_model_id (request_body [user_turn q] (map tool_entry ts))]\<rparr>)"
    using query_body_first_reply [of e ts ?r0 rep blocks q] assms
      reply_blocks_content [OF assms(5)] scan_blocks_texts [OF assms(6)]
      py_join_strs [of nl "map block_text blocks"]
    by (simp add: comp_def)
  show ?thesis
    using assms(1) body by (simp add: pq_result_def pq_events_def process_query_def)
qed

theorem C3_witness:
  "pq_result two_texts_env online ''Hello?'' = Inr (''Hello'' @ nl @ ''world'')
   \<and> invoker_calls (pq_events two_texts_env online ''Hello?'') = 1
   \<and> tool_calls (pq_events two_texts_env online ''Hello?'') = 0"
  using C3_text_only_joined_by_newlines
    [of online two_texts_env "[location_tool]" "reply_of two_texts" two_texts "''Hello?''"]
  by (simp add: online_def two_texts_env_def scripted_def two_texts_def reply_of_def
      text_of_def py_get_def)

text \<open>
  The claim as stated fails: for the two text blocks \<^verbatim>\<open>Hello\<close> and \<^verbatim>\<open>world\<close> the result is
  not their concatenation.
\<close>

theorem C3_counterexample:
  "invoke_model two_texts_env 0 = Reply (reply_of two_texts)
   \<and> list_all text_block two_texts
   \<and> pq_result two_texts_env online ''Hello?'' \<noteq> Inr (concat (map block_text two_texts))"
  by code_simp

section \<open>The scenario of the location QIM4\<close>

text \<open>
  Claim C4. With the query \<^verbatim>\<open>What is the time zone for location QIM4?\<close>, a first reply
  that is the single tool_use block (id \<^verbatim>\<open>t1\<close>, name \<^verbatim>\<open>get_location_by_id\<close>, input
  \<^verbatim>\<open>{location_id: "QIM4"}\<close>), the tool content \<^verbatim>\<open>Time Zone: America/Chicago\<close> and a second
  reply that is the single text block \<^verbatim>\<open>QIM4 is in the America/Chicago time zone.\<close>,
  \<^verbatim>\<open>process_query\<close> returns the annotation line, a newline and the final text.
\<close>

theorem C4_qim4_scenario:
  \<open>pq_result qim4_env online qim4_query =
     Inr (''[Calling tool get_location_by_id with args {"location_id": "QIM4"}]'' @ nl @
          ''QIM4 is in the America/Chicago time zone.'')\<close>
  by code_simp

section \<open>Queries with a tool call\<close>

lemma scan_blocks_append:
  "scan_blocks e ts (xs @ ys) l r =
     (case scan_blocks e ts xs l r of
        (Inl x, r1) \<Rightarrow> (Inl x, r1)
      | (Inr l1, r1) \<Rightarrow> scan_blocks e ts ys l1 r1)"
  by (induction e ts xs l r rule: scan_blocks.induct)
     (auto split: prod.splits sum.splits)

lemma tool_use_branch_reply:
  assumes "available r" and "call_tool e (tool_calls (events r)) = Inr res"
    and "invoke_model e (network_calls (events r)) = Reply rep"
    and "reply_blocks rep = Some fs" and "list_all plain_block fs"
  shows "tool_use_branch e ts kvs l r =
     (Inr (l\<lparr>final_text := final_text l
                 @ [JStr (tool_annotation (py_get kvs ''name'' JNull) (py_get kvs ''input'' (JObj [])))]
                 @ map JStr (texts_of fs),
              messages := messages l
                 @ [assistant_turn (py_get kvs ''name'' JNull) (py_get kvs ''input'' (JObj []))
                      (tool_id kvs (tool_results l)),
                    result_turn res (tool_id kvs (tool_results l))]\<rparr>),
      r\<lparr>events := events r
           @ [EvCallTool (py_get kvs ''name'' JNull) (py_get kvs ''input'' (JObj [])),
              EvInvoke (messages l
                 @ [assistant_turn (py_get kvs ''name'' JNull) (py_get kvs ''input'' (JObj []))
                      (tool_id kvs (tool_results l)),
                    result_turn res (tool_id kvs (tool_results l))]) ts,
              EvNet claude_model_id (request_body (messages l
                 @ [assistant_turn (py_get kvs ''name'' JNull) (py_get kvs ''input'' (JObj []))
                      (tool_id kvs (tool_results l)),
                    result_turn res (tool_id kvs (tool_results l))]) ts)]\<rparr>)"
proof -
  let ?name = "py_get kvs ''name'' JNull" and ?args = "py_get kvs ''input'' (JObj [])"
  let ?r = "log_event (EvCallTool ?name ?args) r"
  have a: "available ?r" and n: "invoke_model e (network_calls (events ?r)) = Reply rep"
    using assms(1,3) by (simp_all add: log_event_def)
  show ?thesis
    using assms(2) invoke_reply [OF a n] reply_blocks_content [OF assms(4)]
      scan_followup_plain [OF assms(5)]
    by (simp add: tool_use_branch_def Let_def log_event_def)
qed

text \<open>
  Claim C2. When the model's reply contains exactly one tool-invocation-request block,
  with text blocks before and after it (possibly none), and the tool call and the
  follow-up reply arrive, \<^verbatim>\<open>process_query\<close> calls the Model Invoker exactly twice and
  \<^verbatim>\<open>callTool\<close> exactly once. The returned string is, line by line: the texts before the
  request, the annotation of the tool call, the texts of the follow-up reply, the texts
  after the request.
\<close>

theorem C2_one_tool_call:
  assumes "session c" and "bedrock_available c" and "list_tools e = Inr ts"
    and "invoke_model e 0 = Reply rep" and "reply_blocks rep = Some (pre @ [b] @ post)"
    and "list_all text_block pre" and "tool_use_block b" and "list_all text_block post"
    and "call_tool e 0 = Inr res"
    and "invoke_model e 1 = Reply rep1" and "reply_blocks rep1 = Some fs"
    and "list_all plain_block fs"
  shows "pq_result e c q =
           Inr (join_str nl (map block_text pre
                             @ [tool_annotation (block_name b) (block_input b)]
                             @ texts_of fs
                             @ map block_text post))
       \<and> invoker_calls (pq_events e c q) = 2
       \<and> tool_calls (pq_events e c q) = 1"
proof -
  let ?ts = "map tool_entry ts"
  let ?r0 = "\<lparr>available = bedrock_available c, events = []\<rparr>"
  let ?r1 = "?r0\<lparr>events := events ?r0 @ [EvListTools, EvInvoke [user_turn q] ?ts,
                 EvNet claude_model_id (request_body [user_turn q] ?ts)]\<rparr>"
  let ?l0 = "\<lparr>messages = [user_turn q], tool_results = [], final_text = []\<rparr>"
  let ?l1 = "?l0\<lparr>final_text := final_text ?l0 @ map (\<lambda>b. JStr (block_text b)) pre\<rparr>"
  from assms(7) obtain kvs where b: "b = JObj kvs"
    by (cases b) simp_all
  have ty: "py_get kvs ''type'' JNull \<noteq> JStr ''text''"
    and tu: "py_get kvs ''type'' JNull = JStr ''tool_use''"
    using assms(7) b by simp_all
  have pre: "scan_blocks e ?ts pre ?l0 ?r1 = (Inr ?l1, ?r1)"
    by (rule scan_blocks_texts [OF assms(6)])
  have "available ?r1" and "tool_calls (events ?r1) = 0" and "network_calls (events ?r1) = 1"
    using assms(2) by simp_all
  from tool_use_branch_reply [OF this(1), of e res rep1 fs ?ts kvs ?l1] this(2,3) assms(9-12)
  obtain l2 r2 where branch: "tool_use_branch e ?ts kvs ?l1 ?r1 = (Inr l2, r2)"
    and ft: "final_text l2 = map (\<lambda>b. JStr (block_text b)) pre
               @ [JStr (tool_annotation (block_name b) (block_input b))] @ map JStr (texts_of fs)"
    and inv: "invoker_calls (events r2) = 2" and tc: "tool_calls (events r2) = 1"
    by (simp add: b block_name_def block_input_def)
  have post: "scan_blocks e ?ts post l2 r2 =
      (Inr (l2\<lparr>final_text := final_text l2 @ map (\<lambda>b. JStr (block_text b)) post\<rparr>), r2)"
    by (rule scan_blocks_texts [OF assms(8)])
  have scan: "scan_blocks e ?ts (pre @ [b] @ post) ?l0 ?r1 =
      (Inr (l2\<lparr>final_text := final_text l2 @ map (\<lambda>b. JStr (block_text b)) post\<rparr>), r2)"
    using pre branch post ty tu by (simp add: scan_blocks_append b)
  have joined: "py_join nl (final_text l2 @ map (\<lambda>b. JStr (block_text b)) post) =
      Inr (join_str nl (map block_text pre @ [tool_annotation (block_name b) (block_input b)]
                        @ texts_of fs @ map block_text post))"
    using py_join_strs [of nl "map block_text pre @ [tool_annotation (block_name b) (block_input b)]
                        @ texts_of fs @ map block_text post"]
    by (simp add: ft comp_def)
  have body: "query_body e q ?r0 =
      (Inr (join_str nl (map block_text pre @ [tool_annotation (block_name b) (block_input b)]
                         @ texts_of fs @ map block_text post)), r2)"
    using query_body_first_reply [of e ts ?r0 rep "pre @ [b] @ post" q] assms(2,3,4)
      reply_blocks_content [OF assms(5)] scan joined
    by simp
  show ?thesis
    using assms(1) body inv tc by (simp add: pq_result_def pq_events_def process_query_def)
qed

theorem C2_witness:
  \<open>pq_result around_env online qim4_query =
     Inr (''Let me look that up.'' @ nl @
          ''[Calling tool get_location_by_id with args {"location_id": "QIM4"}]'' @ nl @
          ''QIM4 is in the America/Chicago time zone.'' @ nl @
          ''Anything else?'')
   \<and> invoker_calls (pq_events around_env online qim4_query) = 2
   \<and> tool_calls (pq_events around_env online qim4_query) = 1\<close>
proof -
  let ?pre = "[text_of ''Let me look that up.'']"
  let ?b = "request_of ''t1'' ''get_location_by_id'' ''QIM4''"
  let ?post = "[text_of ''Anything else?'']"
  let ?fs = "[text_of ''QIM4 is in the America/Chicago time zone.'']"
  have c: "session online" "bedrock_available online"
    by (simp_all add: online_def)
  have lt: "list_tools around_env = Inr [location_tool]"
    by (simp add: around_env_def scripted_def)
  have r0: "invoke_model around_env 0 = Reply (reply_of (?pre @ [?b] @ ?post))"
    by (simp add: around_env_def scripted_def)
  have rb0: "reply_blocks (reply_of (?pre @ [?b] @ ?post)) = Some (?pre @ [?b] @ ?post)"
    by (simp add: reply_of_def py_get_def)
  have pre: "list_all text_block ?pre" and post: "list_all text_block ?post"
    and pl: "list_all plain_block ?fs"
    by (simp_all add: text_of_def py_get_def)
  have tu: "tool_use_block ?b"
    by (simp add: request_of_def py_get_def)
  have ct: "call_tool around_env 0 = Inr ''Time Zone: America/Chicago''"
    by (simp add: around_env_def scripted_def)
  have r1: "invoke_model around_env 1 = Reply (reply_of ?fs)"
    by (simp add: around_env_def scripted_def)
  have rb1: "reply_blocks (reply_of ?fs) = Some ?fs"
    by (simp add: reply_of_def py_get_def)
  have out: \<open>join_str nl (map block_text ?pre
                @ [tool_annotation (block_name ?b) (block_input ?b)]
                @ texts_of ?fs @ map block_text ?post) =
      ''Let me look that up.'' @ nl @
      ''[Calling tool get_location_by_id with args {"location_id": "QIM4"}]'' @ nl @
      ''QIM4 is in the America/Chicago time zone.'' @ nl @
      ''Anything else?''\<close>
    by code_simp
  from C2_one_tool_call [OF c lt r0 rb0 pre tu post ct r1 rb1 pl, of qim4_query]
  show ?thesis
    by (simp only: out)
qed

section \<open>Chains of tool-invocation requests\<close>

lemma tool_use_branch_counts:
  assumes "tool_use_branch e ts kvs l r = (res, r')"
  shows "tool_calls (events r') = Suc (tool_calls (events r))"
    and "invoker_calls (events r') =
           invoker_calls (events r) + (if returns (call_tool e (tool_calls (events r))) then 1 else 0)"
proof -
  let ?name = "py_get kvs ''name'' JNull" and ?args = "py_get kvs ''input'' (JObj [])"
  let ?r = "log_event (EvCallTool ?name ?args) r"
  have both: "tool_calls (events r') = Suc (tool_calls (events r))
      \<and> invoker_calls (events r') =
           invoker_calls (events r) + (if returns (call_tool e (tool_calls (events r))) then 1 else 0)"
  proof (cases "call_tool e (tool_calls (events r))")
    case (Inl x)
    with assms have "r' = ?r"
      by (simp add: tool_use_branch_def Let_def)
    then show ?thesis
      using Inl by (simp add: log_event_def)
  next
    case (Inr result_content)
    let ?ms = "messages l @ [assistant_turn ?name ?args (tool_id kvs (tool_results l)),
                             result_turn result_content (tool_id kvs (tool_results l))]"
    obtain res1 r1 where inv: "invoke_bedrock_claude e ?ms ts ?r = (res1, r1)"
      by (cases "invoke_bedrock_claude e ?ms ts ?r")
    from assms Inr inv have "r' = r1"
      by (auto simp: tool_use_branch_def Let_def split: sum.splits)
    moreover from invoke_events [OF inv] obtain evs where
      "events r1 = events ?r @ EvInvoke ?ms ts # evs" "invoker_calls evs = 0" "tool_calls evs = 0"
      by blast
    ultimately show ?thesis
      using Inr by (simp add: log_event_def)
  qed
  from both show "tool_calls (events r') = Suc (tool_calls (events r))"
    by simp
  from both show "invoker_calls (events r') =
           invoker_calls (events r) + (if returns (call_tool e (tool_calls (events r))) then 1 else 0)"
    by simp
qed

lemma scan_blocks_no_request:
  "\<not> list_ex tool_use_block blocks \<Longrightarrow> snd (scan_blocks e ts blocks l r) = r"
  by (induction e ts blocks l r rule: scan_blocks.induct) auto

lemma plain_request: "tool_use_block b \<Longrightarrow> plain_block b \<and> \<not> is_text b"
  by (cases b) auto

lemma chain_at:
  "chain e n \<Longrightarrow> k < n \<Longrightarrow> single_request (invoke_model e k) \<and> returns (call_tool e k)"
  by (simp add: chain_def list_all_iff)

text \<open>
  Claim C1, amended. For a chain of \<open>n\<close> sequential tool-invocation requests the loop runs
  over the blocks of the first reply only: \<^verbatim>\<open>process_query\<close> makes \<open>min n 1 + 1\<close> calls of
  the Model Invoker and \<open>min n 1\<close> calls of \<^verbatim>\<open>callTool\<close> (\<open>n + 1\<close> and \<open>n\<close> only for
  \<open>n \<le> 1\<close>). It returns after the first follow-up reply whether or not that reply holds a
  request: for \<open>n \<ge> 2\<close> the second request is never executed and the returned string is the
  annotation of the first tool call alone.
\<close>

theorem C1_chain_stops_after_first_follow_up:
  assumes "session c" and "bedrock_available c" and "list_tools e = Inr ts"
    and "chain e n"
  shows "invoker_calls (pq_events e c q) = min n 1 + 1
       \<and> tool_calls (pq_events e c q) = min n 1
       \<and> (2 \<le> n \<longrightarrow>
            pq_result e c q =
              Inr (tool_annotation (block_name (only_block (invoke_model e 0)))
                                   (block_input (only_block (invoke_model e 0)))))"
proof (cases n)
  case 0
  let ?ts = "map tool_entry ts"
  let ?r0 = "\<lparr>available = bedrock_available c, events = []\<rparr>"
  let ?r1 = "?r0\<lparr>events := events ?r0 @ [EvListTools, EvInvoke [user_turn q] ?ts,
                 EvNet claude_model_id (request_body [user_turn q] ?ts)]\<rparr>"
  let ?l0 = "\<lparr>messages = [user_turn q], tool_results = [], final_text = []\<rparr>"
  from assms(4) 0 obtain rep blocks where rep: "invoke_model e 0 = Reply rep"
    and blocks: "reply_blocks rep = Some blocks" and none: "\<not> list_ex tool_use_block blocks"
    by (auto simp: chain_def no_request_def split: net_result.splits option.splits)
  have "snd (scan_blocks e ?ts blocks ?l0 ?r1) = ?r1"
    by (rule scan_blocks_no_request [OF none])
  then have "snd (query_body e q ?r0) = ?r1"
    using query_body_first_reply [of e ts ?r0 rep blocks q] assms(2,3) rep
      reply_blocks_content [OF blocks]
    by (auto split: prod.splits sum.splits)
  then have "pq_events e c q = events ?r1"
    using assms(1) by (auto simp: pq_events_def process_query_def split: prod.splits sum.splits)
  then show ?thesis
    using 0 by simp
next
  case (Suc m)
  let ?ts = "map tool_entry ts"
  let ?r0 = "\<lparr>available = bedrock_available c, events = []\<rparr>"
  let ?r1 = "?r0\<lparr>events := events ?r0 @ [EvListTools, EvInvoke [user_turn q] ?ts,
                 EvNet claude_model_id (request_body [user_turn q] ?ts)]\<rparr>"
  let ?l0 = "\<lparr>messages = [user_turn q], tool_results = [], final_text = []\<rparr>"
  have first: "single_request (invoke_model e 0)" and tool: "returns (call_tool e 0)"
    using chain_at [OF assms(4), of 0] Suc by simp_all
  from first obtain rep b where rep: "invoke_model e 0 = Reply rep"
    and blocks: "reply_blocks rep = Some [b]" and request: "tool_use_block b"
    by (auto simp: single_request_def split: net_result.splits option.splits list.splits)
  from request obtain kvs where b: "b = JObj kvs"
    by (cases b) simp_all
  have ty: "py_get kvs ''type'' JNull \<noteq> JStr ''text''"
    and tu: "py_get kvs ''type'' JNull = JStr ''tool_use''"
    using request b by simp_all
  have only: "only_block (invoke_model e 0) = JObj kvs"
    by (simp add: rep blocks b)
  have start: "tool_calls (events ?r1) = 0" "invoker_calls (events ?r1) = 1"
    "network_calls (events ?r1) = 1" "available ?r1"
    using assms(2) by simp_all
  obtain res2 r2 where branch: "tool_use_branch e ?ts kvs ?l0 ?r1 = (res2, r2)"
    by (cases "tool_use_branch e ?ts kvs ?l0 ?r1")
  have counts: "tool_calls (events r2) = 1" "invoker_calls (events r2) = 2"
    using tool_use_branch_counts [OF branch] start(1,2) tool by simp_all
  have scan: "snd (scan_blocks e ?ts [b] ?l0 ?r1) = r2"
    using branch ty tu by (auto simp: b split: sum.splits)
  have "snd (query_body e q ?r0) = r2"
    using query_body_first_reply [of e ts ?r0 rep "[b]" q] assms(2,3) rep
      reply_blocks_content [OF blocks] scan
    by (auto split: prod.splits sum.splits)
  then have evs: "pq_events e c q = events r2"
    using assms(1) by (auto simp: pq_events_def process_query_def split: prod.splits sum.splits)
  have result: "pq_result e c q =
      Inr (tool_annotation (block_name (JObj kvs)) (block_input (JObj kvs)))" if "2 \<le> n"
  proof -
    from that have "single_request (invoke_model e 1)"
      using chain_at [OF assms(4), of 1] by simp
    then obtain rep1 b1 where rep1: "invoke_model e 1 = Reply rep1"
      and blocks1: "reply_blocks rep1 = Some [b1]" and request1: "tool_use_block b1"
      by (auto simp: single_request_def split: net_result.splits option.splits list.splits)
    from tool obtain out where out: "call_tool e 0 = Inr out"
      by (cases "call_tool e 0") simp_all
    have plain: "list_all plain_block [b1]" and no_text: "texts_of [b1] = []"
      using plain_request [OF request1] by (simp_all add: texts_of_def)
    from tool_use_branch_reply [OF start(4), of e out rep1 "[b1]" ?ts kvs ?l0] start(1,3)
      out rep1 blocks1 plain no_text branch
    obtain l2 where res2: "res2 = Inr l2"
      and ft: "final_text l2 =
                 [JStr (tool_annotation (block_name (JObj kvs)) (block_input (JObj kvs)))]"
      by (auto simp: block_name_def block_input_def)
    have "scan_blocks e ?ts [b] ?l0 ?r1 = (Inr l2, r2)"
      using branch res2 ty tu by (simp add: b)
    then have "query_body e q ?r0 =
        (Inr (tool_annotation (block_name (JObj kvs)) (block_input (JObj kvs))), r2)"
      using query_body_first_reply [of e ts ?r0 rep "[b]" q] assms(2,3) rep
        reply_blocks_content [OF blocks] ft
        py_join_strs [of nl "[tool_annotation (block_name (JObj kvs)) (block_input (JObj kvs))]"]
      by simp
    then show ?thesis
      using assms(1) by (simp add: pq_result_def process_query_def)
  qed
  show ?thesis
    using Suc evs counts result by (simp add: only)
qed

theorem C1_witness:
  \<open>invoker_calls (pq_events chain2_env online qim4_query) = 2
   \<and> tool_calls (pq_events chain2_env online qim4_query) = 1
   \<and> pq_result chain2_env online qim4_query =
       Inr ''[Calling tool get_location_by_id with args {"location_id": "QIM4"}]''\<close>
proof -
  have c: "session online" "bedrock_available online"
    by (simp_all add: online_def)
  have lt: "list_tools chain2_env = Inr [location_tool]"
    by (simp add: chain2_env_def scripted_def)
  have ch: "chain chain2_env 2"
    by code_simp
  have out: \<open>tool_annotation (block_name (only_block (invoke_model chain2_env 0)))
                             (block_input (only_block (invoke_model chain2_env 0))) =
      ''[Calling tool get_location_by_id with args {"location_id": "QIM4"}]''\<close>
    by code_simp
  from C1_chain_stops_after_first_follow_up [OF c lt ch, of qim4_query]
  show ?thesis
    by (simp add: out)
qed

text \<open>
  The claim as stated fails for a chain of two requests: there are two calls of the Model
  Invoker, not three, and one call of \<^verbatim>\<open>callTool\<close>, not two.
\<close>

theorem C1_counterexample:
  "chain chain2_env 2
   \<and> invoker_calls (pq_events chain2_env online qim4_query) \<noteq> 2 + 1
   \<and> tool_calls (pq_events chain2_env online qim4_query) \<noteq> 2"
  by code_simp

section \<open>Failures are answered with text\<close>

lemma tool_use_branch_raises:
  assumes "call_tool e (tool_calls (events r)) = Inl x"
  shows "tool_use_branch e ts kvs l r =
           (Inl x, r\<lparr>events := events r @ [EvCallTool (py_get kvs ''name'' JNull)
                                                     (py_get kvs ''input'' (JObj []))]\<rparr>)"
  using assms by (simp add: tool_use_branch_def Let_def log_event_def)

lemma tool_use_branch_net:
  assumes "tool_use_branch e ts kvs l r = (res, r')"
  shows "network_calls (events r') \<le> Suc (network_calls (events r))"
    and "network_calls (events r) < network_calls (events r') \<Longrightarrow>
         invoker_error (invoke_model e (network_calls (events r))) = Some x \<Longrightarrow>
         res = Inl x \<and> (\<exists>pre m b. events r' = pre @ [EvNet m b]
                                  \<and> network_calls pre = network_calls (events r))"
proof -
  let ?name = "py_get kvs ''name'' JNull" and ?args = "py_get kvs ''input'' (JObj [])"
  let ?r = "log_event (EvCallTool ?name ?args) r"
  have n: "network_calls (events ?r) = network_calls (events r)"
    by (simp add: log_event_def)
  show "network_calls (events r') \<le> Suc (network_calls (events r))"
  proof (cases "call_tool e (tool_calls (events r))")
    case (Inl y)
    with assms show ?thesis
      by (auto simp: tool_use_branch_def Let_def log_event_def)
  next
    case (Inr out)
    let ?ms = "messages l @ [assistant_turn ?name ?args (tool_id kvs (tool_results l)),
                             result_turn out (tool_id kvs (tool_results l))]"
    obtain res1 r1 where inv: "invoke_bedrock_claude e ?ms ts ?r = (res1, r1)"
      by (cases "invoke_bedrock_claude e ?ms ts ?r")
    from assms Inr inv have "r' = r1"
      by (auto simp: tool_use_branch_def Let_def split: sum.splits)
    then show ?thesis
      using invoke_cases [OF inv] n by auto
  qed
  show "res = Inl x \<and> (\<exists>pre m b. events r' = pre @ [EvNet m b]
                                  \<and> network_calls pre = network_calls (events r))"
    if more: "network_calls (events r) < network_calls (events r')"
      and err: "invoker_error (invoke_model e (network_calls (events r))) = Some x"
  proof (cases "call_tool e (tool_calls (events r))")
    case (Inl y)
    with assms more show ?thesis
      by (auto simp: tool_use_branch_def Let_def log_event_def)
  next
    case (Inr out)
    let ?ms = "messages l @ [assistant_turn ?name ?args (tool_id kvs (tool_results l)),
                             result_turn out (tool_id kvs (tool_results l))]"
    obtain res1 r1 where inv: "invoke_bedrock_claude e ?ms ts ?r = (res1, r1)"
      by (cases "invoke_bedrock_claude e ?ms ts ?r")
    from invoke_cases [OF inv] err n have bad: "res1 = Inl x \<or> \<not> available ?r"
      by (cases "invoke_model e (network_calls (events r))") auto
    from assms Inr inv have same: "r' = r1"
      by (auto simp: tool_use_branch_def Let_def split: sum.splits)
    from invoke_cases [OF inv] more same n have avail: "available ?r"
      and evs: "events r1 = events ?r @ [EvInvoke ?ms ts, EvNet claude_model_id (request_body ?ms ts)]"
      by auto
    from bad avail have res1: "res1 = Inl x"
      by simp
    from assms Inr inv res1 have "res = Inl x"
      by (simp add: tool_use_branch_def Let_def)
    moreover have "events r' = (events ?r @ [EvInvoke ?ms ts])
                     @ [EvNet claude_model_id (request_body ?ms ts)]"
      using evs same by simp
    moreover have "network_calls (events ?r @ [EvInvoke ?ms ts]) = network_calls (events r)"
      by (simp add: log_event_def)
    ultimately show ?thesis
      by blast
  qed
qed

lemma scan_blocks_tool_raises:
  assumes "scan_blocks e ts blocks l r = (res, r')"
    and "tool_calls (events r) \<le> k" and "k < tool_calls (events r')"
    and "call_tool e k = Inl x"
  shows "res = Inl x \<and> (\<exists>pre name args. events r' = pre @ [EvCallTool name args]
                                         \<and> tool_calls pre = k)"
  using assms
proof (induction blocks arbitrary: l r)
  case Nil
  then show ?case by simp
next
  case (Cons b blocks)
  show ?case
  proof (cases b)
    case (JObj kvs)
    show ?thesis
    proof (cases "py_get kvs ''type'' JNull = JStr ''text''")
      case True
      with Cons.prems(1) JObj have "scan_blocks e ts blocks
          (l\<lparr>final_text := final_text l @ [py_get kvs ''text'' (JStr [])]\<rparr>) r = (res, r')"
        by simp
      from Cons.IH [OF this Cons.prems(2,3,4)] show ?thesis .
    next
      case False
      show ?thesis
      proof (cases "py_get kvs ''type'' JNull = JStr ''tool_use''")
        case tu: True
        obtain res1 r1 where branch: "tool_use_branch e ts kvs l r = (res1, r1)"
          by (cases "tool_use_branch e ts kvs l r")
        have step: "tool_calls (events r1) = Suc (tool_calls (events r))"
          by (rule tool_use_branch_counts(1) [OF branch])
        show ?thesis
        proof (cases "k = tool_calls (events r)")
          case True
          with Cons.prems(4) branch tool_use_branch_raises [of e r x ts kvs l]
          have "res1 = Inl x" and "events r1 = events r
                  @ [EvCallTool (py_get kvs ''name'' JNull) (py_get kvs ''input'' (JObj []))]"
            by auto
          moreover from this(1) Cons.prems(1) JObj False tu branch
          have "res = Inl x" and "r' = r1"
            by simp_all
          ultimately show ?thesis
            using True by blast
        next
          case other: False
          with Cons.prems(2) step have later: "tool_calls (events r1) \<le> k"
            by simp
          show ?thesis
          proof (cases res1)
            case (Inl y)
            with Cons.prems(1) JObj False tu branch have "r' = r1"
              by simp
            with Cons.prems(3) later show ?thesis
              by simp
          next
            case (Inr l1)
            with Cons.prems(1) JObj False tu branch
            have "scan_blocks e ts blocks l1 r1 = (res, r')"
              by simp
            from Cons.IH [OF this later Cons.prems(3,4)] show ?thesis .
          qed
        qed
      next
        case other: False
        with Cons.prems(1) JObj False have "scan_blocks e ts blocks l r = (res, r')"
          by simp
        from Cons.IH [OF this Cons.prems(2,3,4)] show ?thesis .
      qed
    qed
  qed (use Cons.prems in simp_all)
qed

lemma scan_blocks_net_raises:
  assumes "scan_blocks e ts blocks l r = (res, r')"
    and "network_calls (events r) \<le> k" and "k < network_calls (events r')"
    and "invoker_error (invoke_model e k) = Some x"
  shows "res = Inl x \<and> (\<exists>pre m b. events r' = pre @ [EvNet m b] \<and> network_calls pre = k)"
  using assms
proof (induction blocks arbitrary: l r)
  case Nil
  then show ?case by simp
next
  case (Cons b blocks)
  show ?case
  proof (cases b)
    case (JObj kvs)
    show ?thesis
    proof (cases "py_get kvs ''type'' JNull = JStr ''text''")
      case True
      with Cons.prems(1) JObj have "scan_blocks e ts blocks
          (l\<lparr>final_text := final_text l @ [py_get kvs ''text'' (JStr [])]\<rparr>) r = (res, r')"
        by simp
      from Cons.IH [OF this Cons.prems(2,3,4)] show ?thesis .
    next
      case False
      show ?thesis
      proof (cases "py_get kvs ''type'' JNull = JStr ''tool_use''")
        case tu: True
        obtain res1 r1 where branch: "tool_use_branch e ts kvs l r = (res1, r1)"
          by (cases "tool_use_branch e ts kvs l r")
        note net = tool_use_branch_net [OF branch]
        show ?thesis
        proof (cases "k < network_calls (events r1)")
          case True
          with Cons.prems(2) net(1) have k: "k = network_calls (events r)"
            by simp
          with True Cons.prems(4) net(2) [of x]
          have res1: "res1 = Inl x" and evs: "\<exists>pre m b. events r1 = pre @ [EvNet m b]
                 \<and> network_calls pre = network_calls (events r)"
            by simp_all
          from res1 Cons.prems(1) JObj False tu branch have "res = Inl x" and "r' = r1"
            by simp_all
          with evs k show ?thesis
            by simp
        next
          case later: False
          show ?thesis
          proof (cases res1)
            case (Inl y)
            with Cons.prems(1) JObj False tu branch have "r' = r1"
              by simp
            with Cons.prems(3) later show ?thesis
              by simp
          next
            case (Inr l1)
            with Cons.prems(1) JObj False tu branch
            have scan: "scan_blocks e ts blocks l1 r1 = (res, r')"
              by simp
            from later have "network_calls (events r1) \<le> k"
              by simp
            from Cons.IH [OF scan this Cons.prems(3,4)] show ?thesis .
          qed
        qed
      next
        case other: False
        with Cons.prems(1) JObj False have "scan_blocks e ts blocks l r = (res, r')"
          by simp
        from Cons.IH [OF this Cons.prems(2,3,4)] show ?thesis .
      qed
    qed
  qed (use Cons.prems in simp_all)
qed

subsection \<open>The query as a whole\<close>

lemma query_body_cases [consumes 1, case_names catalog invoker content scan]:
  assumes "query_body e q r0 = (res, r')"
  obtains
    (catalog) x where "list_tools e = Inl x" and "res = Inl x"
      and "r' = log_event EvListTools r0"
  | (invoker) ts x where "list_tools e = Inr ts" and "res = Inl x"
      and "invoke_bedrock_claude e [user_turn q] (map tool_entry ts) (log_event EvListTools r0)
             = (Inl x, r')"
  | (content) ts rep x where "list_tools e = Inr ts" and "res = Inl x"
      and "invoke_bedrock_claude e [user_turn q] (map tool_entry ts) (log_event EvListTools r0)
             = (Inr rep, r')"
      and "reply_content rep = Inl x"
  | (scan) ts rep contents sres r1 where "list_tools e = Inr ts"
      and "invoke_bedrock_claude e [user_turn q] (map tool_entry ts) (log_event EvListTools r0)
             = (Inr rep, r1)"
      and "reply_content rep = Inr contents"
      and "scan_blocks e (map tool_entry ts) contents
             \<lparr>messages = [user_turn q], tool_results = [], final_text = []\<rparr> r1 = (sres, r')"
      and "res = (case sres of Inl x \<Rightarrow> Inl x | Inr l \<Rightarrow> py_join nl (final_text l))"
  using assms
  by (auto simp: query_body_def Let_def split: sum.splits prod.splits)

lemma invoke_net:
  assumes "invoke_bedrock_claude e ms ts r = (res, r1)"
  shows "tool_calls (events r1) = tool_calls (events r)"
    and "network_calls (events r1) \<le> Suc (network_calls (events r))"
    and "network_calls (events r) < network_calls (events r1) \<Longrightarrow>
         invoker_error (invoke_model e (network_calls (events r))) = Some x \<Longrightarrow> res = Inl x"
    and "res = Inr b \<Longrightarrow>
         invoke_model e (network_calls (events r)) = Reply b
         \<and> network_calls (events r1) = Suc (network_calls (events r)) \<and> available r1"
    and "res = Inl x \<Longrightarrow> network_calls (events r) < network_calls (events r1) \<Longrightarrow>
         \<exists>pre m b. events r1 = pre @ [EvNet m b] \<and> network_calls pre = network_calls (events r)"
proof -
  note c = invoke_cases [OF assms]
  show "tool_calls (events r1) = tool_calls (events r)"
    using c by auto
  show "network_calls (events r1) \<le> Suc (network_calls (events r))"
    using c by auto
  show "res = Inl x" if "network_calls (events r) < network_calls (events r1)"
    and "invoker_error (invoke_model e (network_calls (events r))) = Some x"
    using c that by (cases "invoke_model e (network_calls (events r))") auto
  show "invoke_model e (network_calls (events r)) = Reply b
         \<and> network_calls (events r1) = Suc (network_calls (events r)) \<and> available r1"
    if "res = Inr b"
    using c that by (cases "invoke_model e (network_calls (events r))") (auto simp: auth_failed_def)
  show "\<exists>pre m b. events r1 = pre @ [EvNet m b] \<and> network_calls pre = network_calls (events r)"
    if "res = Inl x" and more: "network_calls (events r) < network_calls (events r1)"
  proof -
    from c more have "events r1 = (events r @ [EvInvoke ms ts])
        @ [EvNet claude_model_id (request_body ms ts)]"
      by auto
    moreover have "network_calls (events r @ [EvInvoke ms ts]) = network_calls (events r)"
      by simp
    ultimately show ?thesis
      by blast
  qed
qed

lemma process_query_body:
  assumes "session c"
    and "query_body e q \<lparr>available = bedrock_available c, events = []\<rparr> = (res, r')"
  shows "pq_result e c q = (case res of Inl x \<Rightarrow> handler e x | Inr s \<Rightarrow> Inr s)"
    and "pq_events e c q = events r'"
    and "pq_client e c q = c\<lparr>bedrock_available := available r'\<rparr>"
  using assms
  by (auto simp: pq_result_def pq_events_def pq_client_def process_query_def split: sum.splits)

lemma tool_failure:
  assumes "k < tool_calls (pq_events e c q)" and "call_tool e k = Inl x"
  shows "pq_result e c q = handler e x"
    and "\<exists>pre name args. pq_events e c q = pre @ [EvCallTool name args] \<and> tool_calls pre = k"
proof -
  let ?r0 = "\<lparr>available = bedrock_available c, events = []\<rparr>"
  have s: "session c"
    using assms(1) by (cases "session c") (simp_all add: pq_events_def process_query_def)
  obtain res r' where body: "query_body e q ?r0 = (res, r')"
    by (cases "query_body e q ?r0")
  note pq = process_query_body [OF s body]
  from assms(1) pq(2) have k: "k < tool_calls (events r')"
    by simp
  from body have "res = Inl x
      \<and> (\<exists>pre name args. events r' = pre @ [EvCallTool name args] \<and> tool_calls pre = k)"
  proof (cases rule: query_body_cases)
    case (catalog y)
    with k show ?thesis
      by (simp add: log_event_def)
  next
    case (invoker ts y)
    with k invoke_net(1) [OF invoker(3)] show ?thesis
      by (simp add: log_event_def)
  next
    case (content ts rep y)
    with k invoke_net(1) [OF content(3)] show ?thesis
      by (simp add: log_event_def)
  next
    case (scan ts rep contents sres r1)
    from invoke_net(1) [OF scan(2)] have "tool_calls (events r1) \<le> k"
      by (simp add: log_event_def)
    from scan_blocks_tool_raises [OF scan(4) this k assms(2)] scan(5) show ?thesis
      by simp
  qed
  with pq show "pq_result e c q = handler e x"
    and "\<exists>pre name args. pq_events e c q = pre @ [EvCallTool name args] \<and> tool_calls pre = k"
    by simp_all
qed

lemma invoker_failure:
  assumes "k < network_calls (pq_events e c q)" and "invoker_error (invoke_model e k) = Some x"
  shows "pq_result e c q = handler e x"
    and "\<exists>pre m b. pq_events e c q = pre @ [EvNet m b] \<and> network_calls pre = k"
proof -
  let ?r0 = "\<lparr>available = bedrock_available c, events = []\<rparr>"
  have s: "session c"
    using assms(1) by (cases "session c") (simp_all add: pq_events_def process_query_def)
  obtain res r' where body: "query_body e q ?r0 = (res, r')"
    by (cases "query_body e q ?r0")
  note pq = process_query_body [OF s body]
  from assms(1) pq(2) have k: "k < network_calls (events r')"
    by simp
  have start: "network_calls (events (log_event EvListTools ?r0)) = 0"
    by (simp add: log_event_def)
  from body have "res = Inl x
      \<and> (\<exists>pre m b. events r' = pre @ [EvNet m b] \<and> network_calls pre = k)"
  proof (cases rule: query_body_cases)
    case (catalog y)
    with k show ?thesis
      by (simp add: log_event_def)
  next
    case (invoker ts y)
    note net = invoke_net [OF invoker(3)]
    from k net(2) start have k0: "k = 0"
      by simp
    with k start net(3) [of x] assms(2) have "Inl y = (Inl x :: pyexn + json)"
      by simp
    with invoker(2) k0 k start net(5) [of y] show ?thesis
      by simp
  next
    case (content ts rep y)
    note net = invoke_net [OF content(3)]
    from k net(2) start have "k = 0"
      by simp
    with net(4) [of rep] start assms(2) show ?thesis
      by simp
  next
    case (scan ts rep contents sres r1)
    note net = invoke_net [OF scan(2)]
    from net(4) [of rep] start have first: "invoke_model e 0 = Reply rep"
      and one: "network_calls (events r1) = 1"
      by simp_all
    from first assms(2) have "k \<noteq> 0"
      by (cases "k = 0") auto
    with one have "network_calls (events r1) \<le> k"
      by simp
    from scan_blocks_net_raises [OF scan(4) this k assms(2)] scan(5) show ?thesis
      by simp
  qed
  with pq show "pq_result e c q = handler e x"
    and "\<exists>pre m b. pq_events e c q = pre @ [EvNet m b] \<and> network_calls pre = k"
    by simp_all
qed

lemma catalog_failure:
  assumes "session c" and "list_tools e = Inl x"
  shows "pq_result e c q = handler e x" and "pq_events e c q = [EvListTools]"
  using assms
  by (simp_all add: pq_result_def pq_events_def process_query_def query_body_def Let_def
      log_event_def)

lemma unavailable_query:
  assumes "\<not> bedrock_available c"
  shows "pq_result e c q = unavailable_reply e c"
    and "network_calls (pq_events e c q) = 0"
    and "tool_calls (pq_events e c q) = 0"
    and "pq_client e c q = c"
proof -
  have "pq_result e c q = unavailable_reply e c
      \<and> network_calls (pq_events e c q) = 0 \<and> tool_calls (pq_events e c q) = 0
      \<and> pq_client e c q = c"
  proof (cases "session c")
    case False
    then show ?thesis
      by (simp add: pq_result_def pq_events_def pq_client_def process_query_def
          unavailable_reply_def)
  next
    case True
    show ?thesis
    proof (cases "list_tools e")
      case (Inl x)
      with True assms show ?thesis
        by (simp add: pq_result_def pq_events_def pq_client_def process_query_def
            query_body_def Let_def log_event_def unavailable_reply_def)
    next
      case (Inr ts)
      let ?r = "log_event EvListTools \<lparr>available = bedrock_available c, events = []\<rparr>"
      have "\<not> available ?r"
        using assms by (simp add: log_event_def)
      from invoke_unavailable [OF this, of e "[user_turn q]" "map tool_entry ts"] True Inr assms
      show ?thesis
        by (simp add: pq_result_def pq_events_def pq_client_def process_query_def
            query_body_def Let_def log_event_def unavailable_reply_def handler_def
            is_exception_def base_exceptions_def auth_failed_def)
    qed
  qed
  then show "pq_result e c q = unavailable_reply e c"
    and "network_calls (pq_events e c q) = 0"
    and "tool_calls (pq_events e c q) = 0"
    and "pq_client e c q = c"
    by simp_all
qed

subsection \<open>Where an exception comes from\<close>

text \<open>
  The exceptions that the code raises itself are instances of \<^verbatim>\<open>Exception\<close>; any other
  exception that ends the \<^verbatim>\<open>try\<close> block was raised by the catalog fetch, by the network
  call of the Model Invoker or by a tool call.
\<close>

lemma is_exception_own [simp]:
  "is_exception (no_get v)" "is_exception auth_failed" "is_exception (bedrock_error code m s)"
  "is_exception (PyExn ''TypeError'' msg)"
  by (simp_all add: is_exception_def base_exceptions_def no_get_def auth_failed_def
      bedrock_error_def Let_def)

lemma py_iter_raises: "py_iter v = Inl x \<Longrightarrow> is_exception x"
  by (cases v) auto

lemma reply_content_raises: "reply_content rep = Inl x \<Longrightarrow> is_exception x"
  by (cases rep) (auto dest: py_iter_raises)

lemma scan_followup_raises: "scan_followup conts ft = Inl x \<Longrightarrow> is_exception x"
  by (induction conts ft rule: scan_followup.induct) (auto split: if_splits)

lemma join_items_raises: "join_items i vs = Inl x \<Longrightarrow> is_exception x"
  by (induction i vs rule: join_items.induct) (auto split: sum.splits)

lemma py_join_raises: "py_join sep vs = Inl x \<Longrightarrow> is_exception x"
  by (auto simp: py_join_def split: sum.splits dest: join_items_raises)

lemma invoke_raises:
  assumes "invoke_bedrock_claude e ms ts r = (Inl x, r')"
  shows "is_exception x \<or> (\<exists>k. invoke_model e k = OtherError x)"
proof (cases "invoke_model e (network_calls (events r))")
  case (Reply b)
  with invoke_cases [OF assms] show ?thesis
    by auto
next
  case (ClientError code m s)
  with invoke_cases [OF assms] show ?thesis
    by auto
next
  case (OtherError y)
  with invoke_cases [OF assms] show ?thesis
    by auto
qed

lemma tool_use_branch_raises_source:
  assumes "tool_use_branch e ts kvs l r = (Inl x, r')"
  shows "is_exception x \<or> (\<exists>k. invoke_model e k = OtherError x) \<or> (\<exists>k. call_tool e k = Inl x)"
  using assms
  by (auto simp: tool_use_branch_def Let_def split: sum.splits prod.splits
      dest: invoke_raises reply_content_raises scan_followup_raises)

lemma scan_blocks_raises_source:
  "scan_blocks e ts blocks l r = (Inl x, r') \<Longrightarrow>
   is_exception x \<or> (\<exists>k. invoke_model e k = OtherError x) \<or> (\<exists>k. call_tool e k = Inl x)"
proof (induction e ts blocks l r rule: scan_blocks.induct)
  case (1 e ts l r)
  then show ?case
    by simp
next
  case (2 e ts kvs contents l r)
  show ?case
  proof (cases "py_get kvs ''type'' JNull = JStr ''text''")
    case True
    with 2 show ?thesis
      by simp
  next
    case other: False
    show ?thesis
    proof (cases "py_get kvs ''type'' JNull = JStr ''tool_use''")
      case False
      with other 2 show ?thesis
        by simp
    next
      case True
      obtain res1 r1 where b: "tool_use_branch e ts kvs l r = (res1, r1)"
        by (cases "tool_use_branch e ts kvs l r")
      show ?thesis
      proof (cases res1)
        case (Inl y)
        with b other True "2.prems" have "tool_use_branch e ts kvs l r = (Inl x, r')"
          by simp
        then show ?thesis
          by (rule tool_use_branch_raises_source)
      next
        case (Inr l1)
        with b other True "2.prems" have "scan_blocks e ts contents l1 r1 = (Inl x, r')"
          by simp
        with "2.IH"(2) [OF other True b [symmetric] Inr] show ?thesis
          by simp
      qed
    qed
  qed
qed auto

lemma query_body_raises_source:
  assumes "query_body e q r0 = (Inl x, r')"
  shows "is_exception x \<or> list_tools e = Inl x \<or> (\<exists>k. invoke_model e k = OtherError x)
       \<or> (\<exists>k. call_tool e k = Inl x)"
  using assms
proof (cases rule: query_body_cases)
  case (catalog y)
  then show ?thesis
    by simp
next
  case (invoker ts y)
  with invoke_raises [OF invoker(3)] show ?thesis
    by auto
next
  case (content ts rep y)
  with reply_content_raises [OF content(4)] show ?thesis
    by simp
next
  case (scan ts rep contents sres r1)
  show ?thesis
  proof (cases sres)
    case (Inl y)
    with scan(5) have "y = x"
      by simp
    with scan(4) Inl scan_blocks_raises_source [of e "map tool_entry ts" contents _ r1 x r']
    show ?thesis
      by auto
  next
    case (Inr l)
    with scan(5) have "py_join nl (final_text l) = Inl x"
      by simp
    from py_join_raises [OF this] show ?thesis
      by simp
  qed
qed

lemma process_query_raises:
  assumes "pq_result e c q = Inl x"
  shows "\<not> is_exception x"
    and "list_tools e = Inl x \<or> (\<exists>k. invoke_model e k = OtherError x)
         \<or> (\<exists>k. call_tool e k = Inl x)"
proof -
  let ?r0 = "\<lparr>available = bedrock_available c, events = []\<rparr>"
  have s: "session c"
    using assms by (cases "session c") (simp_all add: pq_result_def process_query_def)
  obtain res r' where body: "query_body e q ?r0 = (res, r')"
    by (cases "query_body e q ?r0")
  from process_query_body(1) [OF s body] assms
  have res: "res = Inl x" and nx: "\<not> is_exception x"
    by (auto simp: handler_def split: sum.splits if_splits)
  from nx show "\<not> is_exception x" .
  from query_body_raises_source [of e q ?r0 x r'] body res nx
  show "list_tools e = Inl x \<or> (\<exists>k. invoke_model e k = OtherError x)
         \<or> (\<exists>k. call_tool e k = Inl x)"
    by simp
qed

section \<open>Failures of a query\<close>

text \<open>
  Claim C5. \<^verbatim>\<open>process_query\<close> returns a string, and raises nothing, whenever every exception
  raised inside it is an instance of \<^verbatim>\<open>Exception\<close>, which is what its handler catches.
  Without a session the string is \<^verbatim>\<open>Not connected to server. Please connect first.\<close> When
  the tool-catalog fetch raises \<open>x\<close>, when a call of the Model Invoker raises \<open>x\<close> (the k-th
  network call fails, or the client is already marked unavailable), when the k-th tool
  invocation raises \<open>x\<close>, and whenever anything else inside the \<^verbatim>\<open>try\<close> block raises \<open>x\<close>,
  the string is \<^verbatim>\<open>Error processing query: \<close> followed by \<^verbatim>\<open>str(x)\<close>, two newlines and the
  traceback. An exception that is not an instance of \<^verbatim>\<open>Exception\<close> is not caught: it leaves
  \<^verbatim>\<open>process_query\<close>, and it can only come from the catalog fetch, the network call or a tool
  call, since the exceptions that the code raises itself are all instances of
  \<^verbatim>\<open>Exception\<close>.
\<close>

theorem C5_exceptions_are_returned_as_text:
  "(\<not> session c \<longrightarrow>
      pq_result e c q = Inr ''Not connected to server. Please connect first.'')
   \<and> (session c \<and> list_tools e = Inl x \<and> is_exception x \<longrightarrow>
        pq_result e c q =
          Inr (''Error processing query: '' @ exn_str x @ nl @ nl @ format_exc e x))
   \<and> (k < network_calls (pq_events e c q) \<and> invoker_error (invoke_model e k) = Some x
        \<and> is_exception x \<longrightarrow>
        pq_result e c q =
          Inr (''Error processing query: '' @ exn_str x @ nl @ nl @ format_exc e x))
   \<and> (session c \<and> \<not> bedrock_available c \<and> returns (list_tools e) \<longrightarrow>
        pq_result e c q =
          Inr (''Error processing query: ''
               @ ''AWS Bedrock authentication failed. Please check your credentials.''
               @ nl @ nl @ format_exc e auth_failed))
   \<and> (k < tool_calls (pq_events e c q) \<and> call_tool e k = Inl x \<and> is_exception x \<longrightarrow>
        pq_result e c q =
          Inr (''Error processing query: '' @ exn_str x @ nl @ nl @ format_exc e x))
   \<and> (session c
        \<and> fst (query_body e q \<lparr>available = bedrock_available c, events = []\<rparr>) = Inl x
        \<and> is_exception x \<longrightarrow>
        pq_result e c q =
          Inr (''Error processing query: '' @ exn_str x @ nl @ nl @ format_exc e x))
   \<and> (session c
        \<and> fst (query_body e q \<lparr>available = bedrock_available c, events = []\<rparr>) = Inl x
        \<and> \<not> is_exception x \<longrightarrow>
        pq_result e c q = Inl x)
   \<and> (pq_result e c q = Inl x \<longrightarrow>
        \<not> is_exception x
        \<and> (list_tools e = Inl x \<or> (\<exists>j. invoke_model e j = OtherError x)
             \<or> (\<exists>j. call_tool e j = Inl x)))
   \<and> ((\<forall>y. list_tools e = Inl y \<longrightarrow> is_exception y)
        \<and> (\<forall>j y. invoke_model e j = OtherError y \<longrightarrow> is_exception y)
        \<and> (\<forall>j y. call_tool e j = Inl y \<longrightarrow> is_exception y) \<longrightarrow>
        (\<exists>s. pq_result e c q = Inr s))"
proof -
  let ?r0 = "\<lparr>available = bedrock_available c, events = []\<rparr>"
  let ?msg = "\<lambda>x. ''Error processing query: '' @ exn_str x @ nl @ nl @ format_exc e x"
  obtain res r' where body: "query_body e q ?r0 = (res, r')"
    by (cases "query_body e q ?r0")
  have caught: "handler e y = Inr (?msg y)" if "is_exception y" for y
    using that by (simp add: handler_def error_text_def)
  have 1: "\<not> session c \<longrightarrow>
      pq_result e c q = Inr ''Not connected to server. Please connect first.''"
    by (simp add: pq_result_def process_query_def not_connected_def)
  have 2: "session c \<and> list_tools e = Inl x \<and> is_exception x \<longrightarrow>
      pq_result e c q = Inr (?msg x)"
    using catalog_failure(1) [of c e x q] caught [of x] by simp
  have 3: "k < network_calls (pq_events e c q) \<and> invoker_error (invoke_model e k) = Some x
      \<and> is_exception x \<longrightarrow> pq_result e c q = Inr (?msg x)"
    using invoker_failure(1) [of k e c q x] caught [of x] by simp
  have 4: "session c \<and> \<not> bedrock_available c \<and> returns (list_tools e) \<longrightarrow>
      pq_result e c q =
        Inr (''Error processing query: ''
             @ ''AWS Bedrock authentication failed. Please check your credentials.''
             @ nl @ nl @ format_exc e auth_failed)"
    using unavailable_query(1) [of c e q]
    by (cases "list_tools e")
       (auto simp: unavailable_reply_def error_text_def auth_failed_def)
  have 5: "k < tool_calls (pq_events e c q) \<and> call_tool e k = Inl x \<and> is_exception x \<longrightarrow>
      pq_result e c q = Inr (?msg x)"
    using tool_failure(1) [of k e c q x] caught [of x] by simp
  have 6: "session c \<and> fst (query_body e q ?r0) = Inl x \<and> is_exception x \<longrightarrow>
      pq_result e c q = Inr (?msg x)"
    using process_query_body(1) [OF _ body] body caught [of x] by auto
  have 7: "session c \<and> fst (query_body e q ?r0) = Inl x \<and> \<not> is_exception x \<longrightarrow>
      pq_result e c q = Inl x"
    using process_query_body(1) [OF _ body] body by (auto simp: handler_def)
  have 8: "pq_result e c q = Inl x \<longrightarrow>
      \<not> is_exception x
      \<and> (list_tools e = Inl x \<or> (\<exists>j. invoke_model e j = OtherError x)
           \<or> (\<exists>j. call_tool e j = Inl x))"
    using process_query_raises [of e c q x] by blast
  have 9: "(\<forall>y. list_tools e = Inl y \<longrightarrow> is_exception y)
      \<and> (\<forall>j y. invoke_model e j = OtherError y \<longrightarrow> is_exception y)
      \<and> (\<forall>j y. call_tool e j = Inl y \<longrightarrow> is_exception y) \<longrightarrow>
      (\<exists>s. pq_result e c q = Inr s)"
  proof (cases "pq_result e c q")
    case (Inl y)
    from process_query_raises [OF Inl] show ?thesis
      by blast
  next
    case (Inr s)
    then show ?thesis
      by simp
  qed
  from 1 2 3 4 5 6 7 8 9 show ?thesis
    by (intro conjI)
qed

theorem C5_witness:
  "pq_result qim4_env offline qim4_query =
     Inr ''Not connected to server. Please connect first.''
   \<and> pq_result lost_env online qim4_query =
       Inr (''Error processing query: Connection closed'' @ nl @ nl
            @ ''Traceback (most recent call last):'' @ nl
            @ ''McpError: Connection closed'' @ nl)
   \<and> pq_result expired_env online qim4_query =
       Inr (''Error processing query: AWS Bedrock error (ExpiredTokenException): ''
            @ ''The security token included in the request is expired'' @ nl @ nl
            @ ''Traceback (most recent call last):'' @ nl
            @ ''Exception: AWS Bedrock error (ExpiredTokenException): ''
            @ ''The security token included in the request is expired'' @ nl)
   \<and> pq_result qim4_env latched qim4_query =
       Inr (''Error processing query: ''
            @ ''AWS Bedrock authentication failed. Please check your credentials.''
            @ nl @ nl @ ''Traceback (most recent call last):'' @ nl
            @ ''Exception: AWS Bedrock authentication failed. Please check your credentials.''
            @ nl)
   \<and> pq_result failing_tool_env online qim4_query =
       Inr (''Error processing query: Connection closed'' @ nl @ nl
            @ ''Traceback (most recent call last):'' @ nl
            @ ''McpError: Connection closed'' @ nl)
   \<and> pq_result unreachable_env online qim4_query =
       Inr (''Error processing query: Could not connect to the endpoint URL'' @ nl @ nl
            @ ''Traceback (most recent call last):'' @ nl
            @ ''EndpointConnectionError: Could not connect to the endpoint URL'' @ nl)
   \<and> pq_result cancelled_tool_env online qim4_query = Inl cancelled
   \<and> call_tool cancelled_tool_env 0 = Inl cancelled
   \<and> (\<exists>s. pq_result qim4_env online qim4_query = Inr s)"
proof -
  let ?expired = "PyExn ''Exception''
     (''AWS Bedrock error (ExpiredTokenException): ''
      @ ''The security token included in the request is expired'')"
  have a: "pq_result qim4_env offline qim4_query =
      Inr ''Not connected to server. Please connect first.''"
  proof -
    have "\<not> session offline"
      by (simp add: offline_def)
    with C5_exceptions_are_returned_as_text [where e = qim4_env and c = offline
        and q = qim4_query]
    show ?thesis
      by blast
  qed
  have b: "pq_result lost_env online qim4_query =
      Inr (''Error processing query: Connection closed'' @ nl @ nl
           @ ''Traceback (most recent call last):'' @ nl
           @ ''McpError: Connection closed'' @ nl)"
  proof -
    have "session online \<and> list_tools lost_env = Inl tool_failure
        \<and> is_exception tool_failure"
      by code_simp
    with C5_exceptions_are_returned_as_text [where e = lost_env and c = online
        and q = qim4_query and x = tool_failure]
    have "pq_result lost_env online qim4_query =
        Inr (''Error processing query: '' @ exn_str tool_failure @ nl @ nl
             @ format_exc lost_env tool_failure)"
      by blast
    moreover have "''Error processing query: '' @ exn_str tool_failure @ nl @ nl
          @ format_exc lost_env tool_failure =
        ''Error processing query: Connection closed'' @ nl @ nl
          @ ''Traceback (most recent call last):'' @ nl
          @ ''McpError: Connection closed'' @ nl"
      by code_simp
    ultimately show ?thesis
      by (simp only:)
  qed
  have c: "pq_result expired_env online qim4_query =
      Inr (''Error processing query: AWS Bedrock error (ExpiredTokenException): ''
           @ ''The security token included in the request is expired'' @ nl @ nl
           @ ''Traceback (most recent call last):'' @ nl
           @ ''Exception: AWS Bedrock error (ExpiredTokenException): ''
           @ ''The security token included in the request is expired'' @ nl)"
  proof -
    have "0 < network_calls (pq_events expired_env online qim4_query)
        \<and> invoker_error (invoke_model expired_env 0) = Some ?expired
        \<and> is_exception ?expired"
      by code_simp
    with C5_exceptions_are_returned_as_text [where e = expired_env and c = online
        and q = qim4_query and x = ?expired and k = 0]
    have "pq_result expired_env online qim4_query =
        Inr (''Error processing query: '' @ exn_str ?expired @ nl @ nl
             @ format_exc expired_env ?expired)"
      by blast
    moreover have "''Error processing query: '' @ exn_str ?expired @ nl @ nl
          @ format_exc expired_env ?expired =
        ''Error processing query: AWS Bedrock error (ExpiredTokenException): ''
          @ ''The security token included in the request is expired'' @ nl @ nl
          @ ''Traceback (most recent call last):'' @ nl
          @ ''Exception: AWS Bedrock error (ExpiredTokenException): ''
          @ ''The security token included in the request is expired'' @ nl"
      by code_simp
    ultimately show ?thesis
      by (simp only:)
  qed
  have d: "pq_result qim4_env latched qim4_query =
      Inr (''Error processing query: ''
           @ ''AWS Bedrock authentication failed. Please check your credentials.''
           @ nl @ nl @ ''Traceback (most recent call last):'' @ nl
           @ ''Exception: AWS Bedrock authentication failed. Please check your credentials.''
           @ nl)"
  proof -
    have "session latched \<and> \<not> bedrock_available latched \<and> returns (list_tools qim4_env)"
      by code_simp
    with C5_exceptions_are_returned_as_text [where e = qim4_env and c = latched
        and q = qim4_query]
    have "pq_result qim4_env latched qim4_query =
        Inr (''Error processing query: ''
             @ ''AWS Bedrock authentication failed. Please check your credentials.''
             @ nl @ nl @ format_exc qim4_env auth_failed)"
      by blast
    moreover have "format_exc qim4_env auth_failed =
        ''Traceback (most recent call last):'' @ nl
        @ ''Exception: AWS Bedrock authentication failed. Please check your credentials.''
        @ nl"
      by code_simp
    ultimately show ?thesis
      by (simp only:)
  qed
  have f: "pq_result failing_tool_env online qim4_query =
      Inr (''Error processing query: Connection closed'' @ nl @ nl
           @ ''Traceback (most recent call last):'' @ nl
           @ ''McpError: Connection closed'' @ nl)"
  proof -
    have "0 < tool_calls (pq_events failing_tool_env online qim4_query)
        \<and> call_tool failing_tool_env 0 = Inl tool_failure \<and> is_exception tool_failure"
      by code_simp
    with C5_exceptions_are_returned_as_text [where e = failing_tool_env and c = online
        and q = qim4_query and x = tool_failure and k = 0]
    have "pq_result failing_tool_env online qim4_query =
        Inr (''Error processing query: '' @ exn_str tool_failure @ nl @ nl
             @ format_exc failing_tool_env tool_failure)"
      by blast
    moreover have "''Error processing query: '' @ exn_str tool_failure @ nl @ nl
          @ format_exc failing_tool_env tool_failure =
        ''Error processing query: Connection closed'' @ nl @ nl
          @ ''Traceback (most recent call last):'' @ nl
          @ ''McpError: Connection closed'' @ nl"
      by code_simp
    ultimately show ?thesis
      by (simp only:)
  qed
  have g: "pq_result unreachable_env online qim4_query =
      Inr (''Error processing query: Could not connect to the endpoint URL'' @ nl @ nl
           @ ''Traceback (most recent call last):'' @ nl
           @ ''EndpointConnectionError: Could not connect to the endpoint URL'' @ nl)"
  proof -
    have "session online
        \<and> fst (query_body unreachable_env qim4_query
                 \<lparr>available = bedrock_available online, events = []\<rparr>) = Inl unreachable
        \<and> is_exception unreachable"
      by code_simp
    with C5_exceptions_are_returned_as_text [where e = unreachable_env and c = online
        and q = qim4_query and x = unreachable]
    have "pq_result unreachable_env online qim4_query =
        Inr (''Error processing query: '' @ exn_str unreachable @ nl @ nl
             @ format_exc unreachable_env unreachable)"
      by blast
    moreover have "''Error processing query: '' @ exn_str unreachable @ nl @ nl
          @ format_exc unreachable_env unreachable =
        ''Error processing query: Could not connect to the endpoint URL'' @ nl @ nl
          @ ''Traceback (most recent call last):'' @ nl
          @ ''EndpointConnectionError: Could not connect to the endpoint URL'' @ nl"
      by code_simp
    ultimately show ?thesis
      by (simp only:)
  qed
  have h: "pq_result cancelled_tool_env online qim4_query = Inl cancelled"
  proof -
    have "session online
        \<and> fst (query_body cancelled_tool_env qim4_query
                 \<lparr>available = bedrock_available online, events = []\<rparr>) = Inl cancelled
        \<and> \<not> is_exception cancelled"
      by code_simp
    with C5_exceptions_are_returned_as_text [where e = cancelled_tool_env and c = online
        and q = qim4_query and x = cancelled]
    show ?thesis
      by blast
  qed
  have i: "call_tool cancelled_tool_env 0 = Inl cancelled"
  proof -
    have "list_tools cancelled_tool_env \<noteq> Inl cancelled"
      and "invoke_model cancelled_tool_env j \<noteq> OtherError cancelled"
      and "call_tool cancelled_tool_env (Suc j) \<noteq> Inl cancelled" for j
      by (simp_all add: cancelled_tool_env_def scripted_def cancelled_def unreachable_def
          tool_failure_def nth_Cons')
    with C5_exceptions_are_returned_as_text [where e = cancelled_tool_env and c = online
        and q = qim4_query and x = cancelled] h
    have "\<exists>j. call_tool cancelled_tool_env j = Inl cancelled"
      by blast
    then obtain j where j: "call_tool cancelled_tool_env j = Inl cancelled" ..
    with \<open>\<And>j. call_tool cancelled_tool_env (Suc j) \<noteq> Inl cancelled\<close> show ?thesis
      by (cases j) simp_all
  qed
  have j: "\<exists>s. pq_result qim4_env online qim4_query = Inr s"
  proof -
    have "\<forall>y. list_tools qim4_env = Inl y \<longrightarrow> is_exception y"
      by (simp add: qim4_env_def scripted_def)
    moreover have "\<forall>j y. invoke_model qim4_env j = OtherError y \<longrightarrow> is_exception y"
      by (simp add: qim4_env_def scripted_def unreachable_def is_exception_def
          base_exceptions_def nth_Cons')
    moreover have "\<forall>j y. call_tool qim4_env j = Inl y \<longrightarrow> is_exception y"
      by (simp add: qim4_env_def scripted_def tool_failure_def is_exception_def
          base_exceptions_def nth_Cons')
    ultimately show ?thesis
      using C5_exceptions_are_returned_as_text [where e = qim4_env and c = online
        and q = qim4_query]
      by blast
  qed
  from a b c d f g h i j show ?thesis
    by (intro conjI)
qed

text \<open>
  A task cancelled while it awaits the catalog: \<^verbatim>\<open>asyncio.CancelledError\<close> is not an
  instance of \<^verbatim>\<open>Exception\<close>, so \<^verbatim>\<open>process_query\<close> raises it and returns no string.
\<close>

theorem C5_counterexample:
  "session online \<and> list_tools cancelled_catalog_env = Inl cancelled
   \<and> pq_result cancelled_catalog_env online qim4_query = Inl cancelled"
  by code_simp

text \<open>
  Claim C6. When \<^verbatim>\<open>callTool\<close> raises for a requested tool (the k-th tool call of the query
  raises \<open>x\<close>), the failing tool call is the last thing the query does: no call of the
  Model Invoker and no other tool call follows it. If \<open>x\<close> is an instance of \<^verbatim>\<open>Exception\<close>,
  \<^verbatim>\<open>process_query\<close> returns the error string \<^verbatim>\<open>Error processing query: \<close> followed by
  \<^verbatim>\<open>str(x)\<close>, two newlines and the traceback; any other exception, such as the
  \<^verbatim>\<open>asyncio.CancelledError\<close> of a task cancelled during the awaited call, leaves
  \<^verbatim>\<open>process_query\<close> and no string is returned.
\<close>

theorem C6_tool_failure_ends_the_query:
  assumes "k < tool_calls (pq_events e c q)" and "call_tool e k = Inl x"
  shows "pq_result e c q =
           (if is_exception x
            then Inr (''Error processing query: '' @ exn_str x @ nl @ nl @ format_exc e x)
            else Inl x)
       \<and> (\<exists>pre name args. pq_events e c q = pre @ [EvCallTool name args] \<and> tool_calls pre = k)"
  using tool_failure [OF assms] by (simp add: handler_def error_text_def)

theorem C6_witness:
  "pq_result failing_tool_env online qim4_query =
     Inr (''Error processing query: Connection closed'' @ nl @ nl
          @ ''Traceback (most recent call last):'' @ nl
          @ ''McpError: Connection closed'' @ nl)
   \<and> invoker_calls (pq_events failing_tool_env online qim4_query) = 1
   \<and> last (pq_events failing_tool_env online qim4_query) =
       EvCallTool (JStr ''get_location_by_id'') (JObj [(''location_id'', JStr ''QIM4'')])"
proof -
  have tool: "0 < tool_calls (pq_events failing_tool_env online qim4_query)"
    and raises: "call_tool failing_tool_env 0 = Inl tool_failure"
    by code_simp+
  have msg: "(if is_exception tool_failure
       then Inr (''Error processing query: '' @ exn_str tool_failure @ nl @ nl
                 @ format_exc failing_tool_env tool_failure)
       else Inl tool_failure) =
      (Inr (''Error processing query: Connection closed'' @ nl @ nl
            @ ''Traceback (most recent call last):'' @ nl
            @ ''McpError: Connection closed'' @ nl) :: pyexn + string)"
    by code_simp
  have rest: "invoker_calls (pq_events failing_tool_env online qim4_query) = 1
     \<and> last (pq_events failing_tool_env online qim4_query) =
         EvCallTool (JStr ''get_location_by_id'') (JObj [(''location_id'', JStr ''QIM4'')])"
    by code_simp
  from C6_tool_failure_ends_the_query [OF tool raises] msg rest show ?thesis
    by (simp only:)
qed

text \<open>
  A task cancelled while it awaits the tool: \<^verbatim>\<open>callTool\<close> raises, and \<^verbatim>\<open>process_query\<close>
  raises in turn instead of returning an error string.
\<close>

theorem C6_counterexample:
  "0 < tool_calls (pq_events cancelled_tool_env online qim4_query)
   \<and> call_tool cancelled_tool_env 0 = Inl cancelled
   \<and> pq_result cancelled_tool_env online qim4_query = Inl cancelled"
  by code_simp




end
